theory Spec2Isabelle
  imports Main "HOL-Library.Product_Lexorder"
begin

section \<open>Data model\<close>

text \<open>
  The backend keeps two document collections, users and notes. A document identifier is
  an \<open>ObjectId\<close>: twelve bytes, which \<open>toString()\<close> renders as twenty-four hexadecimal
  digits in lower case. The model takes an \<open>ObjectId\<close> to be its rendering. A string of
  a request becomes an identifier by a cast, which accepts twenty-four hexadecimal digits
  in either case and rejects every other string (\<open>CastError\<close>); the handlers compare
  identifiers through \<open>toString()\<close> with the raw strings of the URL and of the token.

  Strings are ASCII text, one \<open>char\<close> for each character. Instants (\<open>Date\<close>) are
  milliseconds since the epoch, a \<open>nat\<close>.
\<close>

definition is_lower_hex :: "char \<Rightarrow> bool" where
  "is_lower_hex c = (c \<in> set ''0123456789abcdef'')"

definition is_hex :: "char \<Rightarrow> bool" where
  "is_hex c = (c \<in> set ''0123456789abcdefABCDEF'')"

definition hex_lower :: "char \<Rightarrow> char" where
  "hex_lower c =
     (if c = CHR ''A'' then CHR ''a'' else if c = CHR ''B'' then CHR ''b''
      else if c = CHR ''C'' then CHR ''c'' else if c = CHR ''D'' then CHR ''d''
      else if c = CHR ''E'' then CHR ''e'' else if c = CHR ''F'' then CHR ''f'' else c)"

definition canonical :: "string \<Rightarrow> bool" where
  "canonical s = (length s = 24 \<and> list_all is_lower_hex s)"

typedef ObjectId = "{s :: string. canonical s}"
proof
  show "replicate 24 CHR ''0'' \<in> {s :: string. canonical s}"
    by (simp add: canonical_def is_lower_hex_def list_all_iff)
qed

definition toString :: "ObjectId \<Rightarrow> string" where
  "toString i = Rep_ObjectId i"

text \<open>
  \<open>ObjectId s\<close> is \<open>new ObjectId(s)\<close> for a string the constructor accepts, and
  \<open>castObjectId\<close> the cast with its failure.
\<close>

definition ObjectId :: "string \<Rightarrow> ObjectId" where
  "ObjectId s = Abs_ObjectId (map hex_lower s)"

definition castObjectId :: "string \<Rightarrow> ObjectId option" where
  "castObjectId s =
     (if length s = 24 \<and> list_all is_hex s then Some (ObjectId s) else None)"

definition castable :: "string \<Rightarrow> bool" where
  "castable s = (castObjectId s \<noteq> None)"

text \<open>\<open>IImage\<close> of \<open>models/Note.ts\<close>; the field \<open>id\<close> is \<open>img_id\<close> here.\<close>

record IImage =
  img_id :: string
  img_url :: string
  img_publicId :: string

text \<open>
  \<open>INote\<close> of \<open>models/Note.ts\<close>. \<open>note_id\<close> is the document's \<open>_id\<close>; \<open>userId\<close> is
  a string, optional in the interface; \<open>deletedAt\<close> is a date or \<open>null\<close>. The
  bookkeeping fields \<open>createdAt\<close> and \<open>updatedAt\<close> that the \<open>timestamps\<close> option
  maintains are read by no handler and are left out.
\<close>

record INote =
  note_id :: ObjectId
  title :: string
  content :: string
  color :: string
  images :: "IImage list"
  date :: nat
  userId :: "string option"
  isPinned :: bool
  isArchived :: bool
  isDeleted :: bool
  deletedAt :: "nat option"
  isPublic :: bool
  likes :: "ObjectId list"

datatype provider = Email_provider | Google_provider

text \<open>\<open>IUser\<close> of \<open>models/User.ts\<close>; \<open>user_id\<close> is the document's \<open>_id\<close>.\<close>

record IUser =
  user_id :: ObjectId
  email :: string
  password :: "string option"
  name :: string
  avatar :: string
  bio :: string
  isPrivate :: bool
  googleId :: "string option"
  authProvider :: provider
  refreshToken :: "string option"
  friends :: "ObjectId list"
  friendRequests :: "ObjectId list"
  sentFriendRequests :: "ObjectId list"

text \<open>
  The database: each collection is the list of its documents, in insertion order. The
  store keeps \<open>_id\<close> unique within a collection; \<open>unique_note_ids\<close> and
  \<open>unique_user_ids\<close> state it.
\<close>

record db =
  user_docs :: "IUser list"
  note_docs :: "INote list"

definition unique_note_ids :: "INote list \<Rightarrow> bool" where
  "unique_note_ids ns = distinct (map note_id ns)"

definition unique_user_ids :: "IUser list \<Rightarrow> bool" where
  "unique_user_ids us = distinct (map user_id us)"

section \<open>Collection operations\<close>

text \<open>
  The query operations the handlers call. \<open>findOne\<close> returns the first document that
  matches, \<open>updateOne\<close> rewrites the first document that matches and leaves the collection
  alone when none does, \<open>insertOne\<close> appends. A lookup by \<open>_id\<close> casts the string it is
  given; each handler that does one sends a string the cast rejects to its \<open>catch\<close>
  branch before anything else, which the handlers below write as a test of \<open>castable\<close>.
  Handlers run one at a time, and the two writes of a \<open>Promise.all\<close> are taken in the
  order they are listed.

  \<open>save\<close> of a document that was read from the collection validates the document
  against its schema and then writes it back under its \<open>_id\<close>; a document that fails
  validation is not written and the handler ends in its \<open>catch\<close> branch.
  \<open>findByIdAndUpdate\<close> runs no validator. A failure of the database itself is not part
  of the model, which follows the handlers on a working store.
\<close>

definition findOne :: "('a \<Rightarrow> bool) \<Rightarrow> 'a list \<Rightarrow> 'a option" where
  "findOne P xs = find P xs"

fun updateOne :: "('a \<Rightarrow> bool) \<Rightarrow> ('a \<Rightarrow> 'a) \<Rightarrow> 'a list \<Rightarrow> 'a list" where
  "updateOne P f [] = []"
| "updateOne P f (x # xs) = (if P x then f x # xs else x # updateOne P f xs)"

fun deleteOne :: "('a \<Rightarrow> bool) \<Rightarrow> 'a list \<Rightarrow> 'a list" where
  "deleteOne P [] = []"
| "deleteOne P (x # xs) = (if P x then xs else x # deleteOne P xs)"

definition deleteMany :: "('a \<Rightarrow> bool) \<Rightarrow> 'a list \<Rightarrow> 'a list" where
  "deleteMany P xs = filter (\<lambda>x. \<not> P x) xs"

definition insertOne :: "'a \<Rightarrow> 'a list \<Rightarrow> 'a list" where
  "insertOne x xs = xs @ [x]"

definition Note_findById :: "string \<Rightarrow> INote list \<Rightarrow> INote option" where
  "Note_findById s ns =
     (case castObjectId s of None \<Rightarrow> None | Some i \<Rightarrow> findOne (\<lambda>n. note_id n = i) ns)"

definition Note_findByIdAndUpdate :: "string \<Rightarrow> (INote \<Rightarrow> INote) \<Rightarrow> INote list \<Rightarrow> INote list" where
  "Note_findByIdAndUpdate s f ns =
     (case castObjectId s of None \<Rightarrow> ns | Some i \<Rightarrow> updateOne (\<lambda>n. note_id n = i) f ns)"

definition Note_findByIdAndDelete :: "string \<Rightarrow> INote list \<Rightarrow> INote list" where
  "Note_findByIdAndDelete s ns =
     (case castObjectId s of None \<Rightarrow> ns | Some i \<Rightarrow> deleteOne (\<lambda>n. note_id n = i) ns)"

definition Note_save :: "INote \<Rightarrow> INote list \<Rightarrow> INote list" where
  "Note_save n ns = updateOne (\<lambda>d. note_id d = note_id n) (\<lambda>_. n) ns"

definition User_findById :: "string \<Rightarrow> IUser list \<Rightarrow> IUser option" where
  "User_findById s us =
     (case castObjectId s of None \<Rightarrow> None | Some i \<Rightarrow> findOne (\<lambda>u. user_id u = i) us)"

section \<open>Requests, responses and the environment\<close>

text \<open>
  What a handler sends: the HTTP status and the JSON body. \<open>res.json\<close> without
  \<open>res.status\<close> answers 200. \<open>NoteView\<close> is the object that the listing of another user's
  notes builds for each note.
\<close>

record NoteView =
  v_id :: ObjectId
  v_title :: string
  v_content :: string
  v_color :: string
  v_images :: "IImage list"
  v_date :: nat
  v_userId :: "string option"
  v_isPinned :: bool
  v_isPublic :: bool
  v_likesCount :: nat
  v_isLiked :: bool
  v_isOwn :: bool

record Registered =
  reg_message :: string
  reg_id :: ObjectId
  reg_email :: string
  reg_name :: string
  reg_accessToken :: string
  reg_refreshToken :: string

datatype body =
    Error string
  | Message string
  | Null_json
  | Note_json INote
  | Notes_json "INote list"
  | Image_json IImage
  | Like_json bool nat
  | Visibility_json string bool
  | NoteViews_json "NoteView list"
  | Registered_json Registered

datatype response = Response nat body

fun status :: "response \<Rightarrow> nat" where
  "status (Response s b) = s"

text \<open>
  The JSON body of a note request (\<open>POST /\<close> and \<open>PUT /:id\<close>) and of a registration. A
  field the client left out is \<open>None\<close>.
\<close>

record note_body =
  b_title :: "string option"
  b_content :: "string option"
  b_color :: "string option"
  b_images :: "IImage list option"
  b_isPinned :: "bool option"
  b_isArchived :: "bool option"

record register_body =
  r_email :: "string option"
  r_password :: "string option"
  r_name :: "string option"

text \<open>
  The collaborators whose code is outside \<open>routes/\<close> and \<open>models/\<close> are inputs of the
  model. \<open>uploadBase64\<close>, \<open>uploadFile\<close> and \<open>deleteFile\<close> are the image storage of
  \<open>config/upload\<close>: an upload returns the stored image's address and storage id, or fails
  (\<open>None\<close>, the promise rejects); \<open>deleteFile\<close> says whether the deletion went through.
  \<open>new_Date\<close> is the instant \<open>new Date()\<close> reads, \<open>Date_now k\<close> the instant
  \<open>Date.now()\<close> reads while the \<open>k\<close>-th image of a request is handled, and
  \<open>fresh_ObjectId\<close> the identifier the driver gives to a document built with \<open>new\<close>.
  \<open>bcrypt_hash\<close> is the salted hash of the \<open>pre('save')\<close> hook; the two token functions
  are those of \<open>middleware/auth\<close>.
\<close>

record uploaded =
  up_url :: string
  up_publicId :: string

type_synonym UploadedFile = string

record env =
  uploadBase64 :: "string \<Rightarrow> uploaded option"
  uploadFile :: "UploadedFile \<Rightarrow> uploaded option"
  deleteFile :: "string \<Rightarrow> bool"
  new_Date :: nat
  Date_now :: "nat \<Rightarrow> nat"
  fresh_ObjectId :: ObjectId
  bcrypt_hash :: "string \<Rightarrow> string"
  generateAccessToken :: "string \<Rightarrow> string"
  generateRefreshToken :: "string \<Rightarrow> string"

section \<open>Strings\<close>

text \<open>
  The string operations of the handlers: \<open>startsWith\<close>, the decimal rendering of a
  number (\<open>Date.now().toString()\<close>) and the \<open>x || fallback\<close> idiom, for which an
  absent string and the empty string are both falsy; and \<open>toLowerCase\<close> and \<open>trim\<close>
  as they act on ASCII text (\<open>ascii\<close>), where the letters with a lower case are
  \<open>A\<close> to \<open>Z\<close> and the white space is the tab, the line feed, the vertical tab, the
  form feed, the carriage return and the space. What is stated of these two is stated of
  ASCII strings.
\<close>

definition ascii :: "string \<Rightarrow> bool" where
  "ascii s = list_all (\<lambda>c. (of_char c :: nat) < 128) s"

definition startsWith :: "string \<Rightarrow> string \<Rightarrow> bool" where
  "startsWith s p = (take (length p) s = p)"

definition lower_char :: "char \<Rightarrow> char" where
  "lower_char c =
     (let n = (of_char c :: nat)
      in if 65 \<le> n \<and> n \<le> 90 then char_of (n + 32) else c)"

definition toLowerCase :: "string \<Rightarrow> string" where
  "toLowerCase s = map lower_char s"

definition is_space :: "char \<Rightarrow> bool" where
  "is_space c = ((of_char c :: nat) \<in> {9, 10, 11, 12, 13, 32})"

definition trim :: "string \<Rightarrow> string" where
  "trim s = rev (dropWhile is_space (rev (dropWhile is_space s)))"

definition digit_char :: "nat \<Rightarrow> char" where
  "digit_char n = char_of (48 + n)"

fun nat_toString :: "nat \<Rightarrow> string" where
  "nat_toString n =
     (if n < 10 then [digit_char n] else nat_toString (n div 10) @ [digit_char (n mod 10)])"

declare nat_toString.simps [simp del]

definition given :: "string option \<Rightarrow> string" where
  "given s = (case s of None \<Rightarrow> [] | Some x \<Rightarrow> x)"

definition or_else :: "string option \<Rightarrow> string \<Rightarrow> string" where
  "or_else s fallback = (if given s = [] then fallback else given s)"

definition some :: "('a \<Rightarrow> bool) \<Rightarrow> 'a list \<Rightarrow> bool" where
  "some P xs = list_ex P xs"

section \<open>Schemas\<close>

text \<open>
  \<open>NoteSchema\<close> and \<open>UserSchema\<close>: the defaults a document built with \<open>new\<close> takes for
  the fields it is not given, the setters of the string fields (\<open>lowercase\<close>, \<open>trim\<close>),
  and the validators that \<open>save\<close> runs (\<open>required\<close>, which an empty string fails,
  \<open>minlength\<close> and \<open>maxlength\<close>).
\<close>

definition NoteSchema_defaults :: "ObjectId \<Rightarrow> nat \<Rightarrow> INote" where
  "NoteSchema_defaults i now =
     \<lparr>note_id = i, title = ''Tanpa Judul'', content = [], color = ''#E9D5FF'', images = [],
      date = now, userId = None, isPinned = False, isArchived = False, isDeleted = False,
      deletedAt = None, isPublic = True, likes = []\<rparr>"

definition ImageSchema_valid :: "IImage \<Rightarrow> bool" where
  "ImageSchema_valid img = (img_id img \<noteq> [] \<and> img_url img \<noteq> [] \<and> img_publicId img \<noteq> [])"

definition NoteSchema_valid :: "INote \<Rightarrow> bool" where
  "NoteSchema_valid n = (title n \<noteq> [] \<and> list_all ImageSchema_valid (images n))"

definition UserSchema_defaults :: "ObjectId \<Rightarrow> IUser" where
  "UserSchema_defaults i =
     \<lparr>user_id = i, email = [], password = None, name = [], avatar = [], bio = [],
      isPrivate = False, googleId = None, authProvider = Email_provider, refreshToken = None,
      friends = [], friendRequests = [], sentFriendRequests = []\<rparr>"

definition email_setters :: "string \<Rightarrow> string" where
  "email_setters s = trim (toLowerCase s)"

definition UserSchema_valid :: "IUser \<Rightarrow> bool" where
  "UserSchema_valid u =
     (email u \<noteq> [] \<and> name u \<noteq> [] \<and> length (bio u) \<le> 200
      \<and> (case password u of None \<Rightarrow> True | Some p \<Rightarrow> 6 \<le> length p))"

text \<open>
  Saving users. \<open>User_save\<close> is \<open>save\<close> of a user document that was read from the
  collection: \<open>None\<close> when the document fails validation. The friend handlers read two
  users, change both in memory and save both. A save that assigns a whole array carries
  the version the document was read at; when the two documents are two copies of one
  stored document, the first save moves the version on and the second is refused
  (\<open>VersionError\<close>). \<open>save_two\<close> is the outcome of the two saves: whether both went
  through, and the collection they leave. A save that only pushes onto arrays carries no
  version and is applied to the stored array whatever was saved before (\<open>push_two\<close>,
  given the two documents as changed in memory and the two pushes).
\<close>

definition User_save :: "IUser \<Rightarrow> IUser list \<Rightarrow> IUser list option" where
  "User_save u us =
     (if UserSchema_valid u
      then Some (updateOne (\<lambda>d. user_id d = user_id u) (\<lambda>_. u) us)
      else None)"

definition save_two :: "IUser \<Rightarrow> IUser \<Rightarrow> IUser list \<Rightarrow> bool \<times> IUser list" where
  "save_two first second us =
     (case User_save first us of
        None \<Rightarrow>
          (case User_save second us of None \<Rightarrow> (False, us) | Some us2 \<Rightarrow> (False, us2))
      | Some us1 \<Rightarrow>
          if user_id second = user_id first then (False, us1)
          else (case User_save second us1 of
                  None \<Rightarrow> (False, us1)
                | Some us2 \<Rightarrow> (True, us2)))"

definition push_two ::
  "IUser \<Rightarrow> (IUser \<Rightarrow> IUser) \<Rightarrow> IUser \<Rightarrow> (IUser \<Rightarrow> IUser) \<Rightarrow> IUser list \<Rightarrow> bool \<times> IUser list" where
  "push_two first push1 second push2 us =
     (let us1 = (if UserSchema_valid first
                 then updateOne (\<lambda>d. user_id d = user_id first) push1 us else us);
          us2 = (if UserSchema_valid second
                 then updateOne (\<lambda>d. user_id d = user_id second) push2 us1 else us1)
      in (UserSchema_valid first \<and> UserSchema_valid second, us2))"

section \<open>The notes routes\<close>

text \<open>
  The handlers of \<open>routes/notes.ts\<close>, in the order of the file. Each takes the
  environment, the authenticated user's id (\<open>req.userId\<close>), the parameters of the
  request and the database, and returns the response with the database it leaves. The
  500 answers are the \<open>catch\<close> branches.
\<close>

subsection \<open>\<open>GET /\<close>\<close>

text \<open>
  The filter of the listing, as a predicate on a note: \<open>$ne: true\<close> is the negation on a
  boolean field. The result is sorted by \<open>isPinned\<close> descending, then \<open>date\<close>
  descending; among notes equal in both keys the store promises no order, and the model
  fixes one.
\<close>

definition list_filter :: "string \<Rightarrow> string option \<Rightarrow> string option \<Rightarrow> INote \<Rightarrow> bool" where
  "list_filter uid archived deleted n =
     (if deleted = Some ''true'' then userId n = Some uid \<and> isDeleted n
      else if archived = Some ''true'' then userId n = Some uid \<and> \<not> isDeleted n \<and> isArchived n
      else userId n = Some uid \<and> \<not> isDeleted n \<and> \<not> isArchived n)"

definition sort_pinned_date :: "INote list \<Rightarrow> INote list" where
  "sort_pinned_date ns = rev (sort_key (\<lambda>n. (isPinned n, date n)) ns)"

definition list_notes :: "string \<Rightarrow> string option \<Rightarrow> string option \<Rightarrow> db \<Rightarrow> response \<times> db" where
  "list_notes uid archived deleted d =
     (Response 200 (Notes_json (sort_pinned_date (filter (list_filter uid archived deleted) (note_docs d)))), d)"

subsection \<open>\<open>GET /:id\<close>\<close>

text \<open>\<open>Note.findOne({ _id: req.params.id, userId: req.userId })\<close>.\<close>

definition Note_findOwn :: "string \<Rightarrow> string \<Rightarrow> INote list \<Rightarrow> INote option" where
  "Note_findOwn noteId uid ns =
     (case castObjectId noteId of
        None \<Rightarrow> None
      | Some i \<Rightarrow> findOne (\<lambda>n. note_id n = i \<and> userId n = Some uid) ns)"

definition get_note :: "string \<Rightarrow> string \<Rightarrow> db \<Rightarrow> response \<times> db" where
  "get_note uid noteId d =
     (if \<not> castable noteId then (Response 500 (Error ''Failed to fetch note''), d)
      else case Note_findOwn noteId uid (note_docs d) of
             None \<Rightarrow> (Response 404 (Error ''Note not found''), d)
           | Some note \<Rightarrow> (Response 200 (Note_json note), d))"

subsection \<open>\<open>POST /\<close>\<close>

text \<open>
  The loop over the request's images. An image whose address starts with \<open>data:\<close> is
  uploaded and replaced; a failed upload leaves the loop (the handler's \<open>catch\<close>).
\<close>

fun upload_images :: "env \<Rightarrow> nat \<Rightarrow> IImage list \<Rightarrow> IImage list option" where
  "upload_images e k [] = Some []"
| "upload_images e k (img # imgs) =
     (if startsWith (img_url img) ''data:''
      then (case uploadBase64 e (img_url img) of
              None \<Rightarrow> None
            | Some up \<Rightarrow>
                (case upload_images e (Suc k) imgs of
                   None \<Rightarrow> None
                 | Some rest \<Rightarrow>
                     Some (\<lparr>img_id = (if img_id img \<noteq> [] then img_id img
                                       else nat_toString (Date_now e k)),
                            img_url = up_url up,
                            img_publicId = up_publicId up\<rparr> # rest)))
      else (case upload_images e (Suc k) imgs of
              None \<Rightarrow> None
            | Some rest \<Rightarrow> Some (img # rest)))"

definition uploadedImages_of :: "env \<Rightarrow> IImage list option \<Rightarrow> IImage list option" where
  "uploadedImages_of e imgs =
     (case imgs of None \<Rightarrow> Some [] | Some xs \<Rightarrow> upload_images e 0 xs)"

definition create_note :: "env \<Rightarrow> string \<Rightarrow> note_body \<Rightarrow> db \<Rightarrow> response \<times> db" where
  "create_note e uid b d =
     (case uploadedImages_of e (b_images b) of
        None \<Rightarrow> (Response 500 (Error ''Failed to create note''), d)
      | Some uploadedImages \<Rightarrow>
          let dflt = NoteSchema_defaults (fresh_ObjectId e) (new_Date e);
              note = dflt\<lparr>
                title := or_else (b_title b) ''Untitled'',
                content := (case b_content b of None \<Rightarrow> content dflt | Some c \<Rightarrow> c),
                color := (case b_color b of None \<Rightarrow> color dflt | Some c \<Rightarrow> c),
                images := uploadedImages,
                userId := Some uid,
                date := new_Date e,
                isPinned := (b_isPinned b = Some True),
                isArchived := False,
                isDeleted := False\<rparr>
          in if NoteSchema_valid note
             then (Response 201 (Note_json note), d\<lparr>note_docs := insertOne note (note_docs d)\<rparr>)
             else (Response 500 (Error ''Failed to create note''), d))"

subsection \<open>\<open>PUT /:id\<close>\<close>

text \<open>
  \<open>findByIdAndUpdate\<close> sets the fields of \<open>updateData\<close>; a field whose value is
  \<open>undefined\<close> is not part of the update and keeps its stored value. No validator runs.
\<close>

definition deleteFiles :: "env \<Rightarrow> IImage list \<Rightarrow> bool" where
  "deleteFiles e imgs = list_all (\<lambda>img. img_publicId img = [] \<or> deleteFile e (img_publicId img)) imgs"

definition update_note :: "env \<Rightarrow> string \<Rightarrow> string \<Rightarrow> note_body \<Rightarrow> db \<Rightarrow> response \<times> db" where
  "update_note e uid noteId b d =
     (if \<not> castable noteId then (Response 500 (Error ''Failed to update note''), d)
      else case Note_findOwn noteId uid (note_docs d) of
        None \<Rightarrow> (Response 404 (Error ''Note not found''), d)
      | Some existingNote \<Rightarrow>
          (case uploadedImages_of e (b_images b) of
             None \<Rightarrow> (Response 500 (Error ''Failed to update note''), d)
           | Some uploadedImages \<Rightarrow>
               let newImageIds = (case b_images b of None \<Rightarrow> [] | Some xs \<Rightarrow> map img_id xs);
                   removedImages = filter (\<lambda>img. img_id img \<notin> set newImageIds) (images existingNote)
               in if \<not> deleteFiles e removedImages
                  then (Response 500 (Error ''Failed to update note''), d)
                  else
                    let updateData = (\<lambda>n. n\<lparr>
                          title := or_else (b_title b) ''Untitled'',
                          content := (case b_content b of None \<Rightarrow> content n | Some c \<Rightarrow> c),
                          color := (case b_color b of None \<Rightarrow> color n | Some c \<Rightarrow> c),
                          images := uploadedImages,
                          date := new_Date e,
                          isPinned := (case b_isPinned b of None \<Rightarrow> isPinned n | Some p \<Rightarrow> p),
                          isArchived := (case b_isArchived b of None \<Rightarrow> isArchived n | Some a \<Rightarrow> a)\<rparr>);
                        ns = Note_findByIdAndUpdate noteId updateData (note_docs d)
                    in (Response 200 (case Note_findById noteId ns of
                                        None \<Rightarrow> Null_json | Some updatedNote \<Rightarrow> Note_json updatedNote),
                        d\<lparr>note_docs := ns\<rparr>)))"

subsection \<open>\<open>DELETE /:id\<close> and \<open>POST /:id/restore\<close>\<close>

definition delete_note :: "env \<Rightarrow> string \<Rightarrow> string \<Rightarrow> string option \<Rightarrow> db \<Rightarrow> response \<times> db" where
  "delete_note e uid noteId permanent d =
     (if \<not> castable noteId then (Response 500 (Error ''Failed to delete note''), d)
      else case Note_findOwn noteId uid (note_docs d) of
        None \<Rightarrow> (Response 404 (Error ''Note not found''), d)
      | Some note \<Rightarrow>
          if permanent = Some ''true''
          then (if deleteFiles e (images note)
                then (Response 200 (Message ''Note permanently deleted''),
                      d\<lparr>note_docs := Note_findByIdAndDelete noteId (note_docs d)\<rparr>)
                else (Response 500 (Error ''Failed to delete note''), d))
          else (Response 200 (Message ''Note moved to trash''),
                d\<lparr>note_docs := Note_findByIdAndUpdate noteId
                       (\<lambda>n. n\<lparr>isDeleted := True, deletedAt := Some (new_Date e)\<rparr>) (note_docs d)\<rparr>))"

text \<open>\<open>Note.findOne({ _id: req.params.id, userId: req.userId, isDeleted: true })\<close>.\<close>

definition Note_findTrashed :: "string \<Rightarrow> string \<Rightarrow> INote list \<Rightarrow> INote option" where
  "Note_findTrashed noteId uid ns =
     (case castObjectId noteId of
        None \<Rightarrow> None
      | Some i \<Rightarrow> findOne (\<lambda>n. note_id n = i \<and> userId n = Some uid \<and> isDeleted n) ns)"

definition restore_note :: "string \<Rightarrow> string \<Rightarrow> db \<Rightarrow> response \<times> db" where
  "restore_note uid noteId d =
     (if \<not> castable noteId then (Response 500 (Error ''Failed to restore note''), d)
      else case Note_findTrashed noteId uid (note_docs d) of
        None \<Rightarrow> (Response 404 (Error ''Note not found in trash''), d)
      | Some note \<Rightarrow>
          (Response 200 (Message ''Note restored successfully''),
           d\<lparr>note_docs := Note_findByIdAndUpdate noteId
                  (\<lambda>n. n\<lparr>isDeleted := False, deletedAt := None\<rparr>) (note_docs d)\<rparr>))"

subsection \<open>\<open>DELETE /trash/empty\<close>, \<open>POST /upload\<close>, \<open>POST /upload-file\<close>\<close>

definition empty_trash :: "env \<Rightarrow> string \<Rightarrow> db \<Rightarrow> response \<times> db" where
  "empty_trash e uid d =
     (let trashed = (\<lambda>n. userId n = Some uid \<and> isDeleted n);
          trashedNotes = filter trashed (note_docs d)
      in if list_all (\<lambda>note. deleteFiles e (images note)) trashedNotes
         then (Response 200 (Message ''Trash emptied successfully''),
               d\<lparr>note_docs := deleteMany trashed (note_docs d)\<rparr>)
         else (Response 500 (Error ''Failed to empty trash''), d))"

definition upload_image :: "env \<Rightarrow> string option \<Rightarrow> db \<Rightarrow> response \<times> db" where
  "upload_image e image_req d =
     (if given image_req = [] then (Response 400 (Error ''No image provided''), d)
      else case uploadBase64 e (given image_req) of
             None \<Rightarrow> (Response 500 (Error ''Failed to upload image''), d)
           | Some up \<Rightarrow>
               (Response 200 (Image_json \<lparr>img_id = nat_toString (Date_now e 0),
                                          img_url = up_url up, img_publicId = up_publicId up\<rparr>), d))"

definition upload_file :: "env \<Rightarrow> UploadedFile option \<Rightarrow> db \<Rightarrow> response \<times> db" where
  "upload_file e file d =
     (case file of
        None \<Rightarrow> (Response 400 (Error ''No file provided''), d)
      | Some f \<Rightarrow>
          (case uploadFile e f of
             None \<Rightarrow> (Response 500 (Error ''Failed to upload file''), d)
           | Some up \<Rightarrow>
               (Response 200 (Image_json \<lparr>img_id = nat_toString (Date_now e 0),
                                          img_url = up_url up, img_publicId = up_publicId up\<rparr>), d)))"

subsection \<open>\<open>POST /:id/like\<close>\<close>

text \<open>
  \<open>new mongoose.Types.ObjectId(userId)\<close> throws on a string the constructor rejects, and
  \<open>note.save()\<close> validates the note it writes back; both failures are the \<open>catch\<close>
  branch.
\<close>

definition toggle_likes :: "string \<Rightarrow> ObjectId \<Rightarrow> ObjectId list \<Rightarrow> ObjectId list" where
  "toggle_likes uid userObjectId ls =
     (if some (\<lambda>i. toString i = uid) ls
      then filter (\<lambda>i. toString i \<noteq> uid) ls
      else ls @ [userObjectId])"

definition like_note :: "string \<Rightarrow> string \<Rightarrow> db \<Rightarrow> response \<times> db" where
  "like_note uid noteId d =
     (if \<not> castable noteId then (Response 500 (Error ''Failed to toggle like''), d)
      else case Note_findById noteId (note_docs d) of
        None \<Rightarrow> (Response 404 (Error ''Note not found''), d)
      | Some note \<Rightarrow>
          if \<not> isPublic note \<and> userId note \<noteq> Some uid
          then (Response 403 (Error ''Cannot like private note''), d)
          else
            (case castObjectId uid of
               None \<Rightarrow> (Response 500 (Error ''Failed to toggle like''), d)
             | Some userObjectId \<Rightarrow>
                 let alreadyLiked = some (\<lambda>i. toString i = uid) (likes note);
                     note' = note\<lparr>likes := toggle_likes uid userObjectId (likes note)\<rparr>
                 in if NoteSchema_valid note'
                    then (Response 200 (Like_json (\<not> alreadyLiked) (length (likes note'))),
                          d\<lparr>note_docs := Note_save note' (note_docs d)\<rparr>)
                    else (Response 500 (Error ''Failed to toggle like''), d)))"

subsection \<open>\<open>POST /:id/duplicate\<close>\<close>

definition duplicate_note :: "env \<Rightarrow> string \<Rightarrow> string \<Rightarrow> db \<Rightarrow> response \<times> db" where
  "duplicate_note e uid noteId d =
     (let failed = (Response 500 (Error ''Failed to duplicate note''), d)
      in if \<not> castable noteId then failed
      else case Note_findById noteId (note_docs d) of
        None \<Rightarrow> (Response 404 (Error ''Note not found''), d)
      | Some originalNote \<Rightarrow>
          let duplicatedNote = (NoteSchema_defaults (fresh_ObjectId e) (new_Date e))\<lparr>
                title := title originalNote @ '' (Copy)'',
                content := content originalNote,
                color := color originalNote,
                images := images originalNote,
                userId := Some uid,
                date := new_Date e,
                isPinned := False,
                isArchived := False,
                isDeleted := False,
                isPublic := True,
                likes := []\<rparr>;
              created = (if NoteSchema_valid duplicatedNote
                         then (Response 201 (Note_json duplicatedNote),
                               d\<lparr>note_docs := insertOne duplicatedNote (note_docs d)\<rparr>)
                         else failed)
          in if \<not> isPublic originalNote \<and> userId originalNote \<noteq> Some uid
             then (if (case userId originalNote of None \<Rightarrow> False | Some ownerId \<Rightarrow> \<not> castable ownerId)
                      \<or> \<not> castable uid
                   then failed
                   else case (case userId originalNote of
                                None \<Rightarrow> None
                              | Some ownerId \<Rightarrow> User_findById ownerId (user_docs d)) of
                     None \<Rightarrow> (Response 404 (Error ''User not found''), d)
                   | Some noteOwner \<Rightarrow>
                       (case User_findById uid (user_docs d) of
                          None \<Rightarrow> (Response 404 (Error ''User not found''), d)
                        | Some currentUser \<Rightarrow>
                            if \<not> some (\<lambda>f. Some (toString f) = userId originalNote) (friends currentUser)
                            then (Response 403 (Error ''Cannot duplicate private note''), d)
                            else created))
             else created)"

subsection \<open>\<open>PUT /:id/visibility\<close>\<close>

definition set_visibility :: "string \<Rightarrow> string \<Rightarrow> bool \<Rightarrow> db \<Rightarrow> response \<times> db" where
  "set_visibility uid noteId isPublic_req d =
     (if \<not> castable noteId then (Response 500 (Error ''Failed to update visibility''), d)
      else case Note_findOwn noteId uid (note_docs d) of
        None \<Rightarrow> (Response 404 (Error ''Note not found''), d)
      | Some note \<Rightarrow>
          let note' = note\<lparr>isPublic := isPublic_req\<rparr>
          in if NoteSchema_valid note'
             then (Response 200 (Visibility_json ''Note visibility updated'' (isPublic note')),
                   d\<lparr>note_docs := Note_save note' (note_docs d)\<rparr>)
             else (Response 500 (Error ''Failed to update visibility''), d))"

subsection \<open>\<open>GET /user/:userId\<close>\<close>

definition note_view :: "string \<Rightarrow> bool \<Rightarrow> INote \<Rightarrow> NoteView" where
  "note_view currentUserId isOwn note =
     \<lparr>v_id = note_id note, v_title = title note, v_content = content note,
      v_color = color note, v_images = images note, v_date = date note,
      v_userId = userId note, v_isPinned = isPinned note, v_isPublic = isPublic note,
      v_likesCount = length (likes note),
      v_isLiked = some (\<lambda>i. toString i = currentUserId) (likes note),
      v_isOwn = isOwn\<rparr>"

definition user_notes_filter :: "string \<Rightarrow> bool \<Rightarrow> INote \<Rightarrow> bool" where
  "user_notes_filter targetUserId isOwn n =
     (userId n = Some targetUserId \<and> \<not> isDeleted n \<and> \<not> isArchived n
      \<and> (isOwn \<or> isPublic n))"

definition get_user_notes :: "string \<Rightarrow> string \<Rightarrow> db \<Rightarrow> response \<times> db" where
  "get_user_notes currentUserId targetUserId d =
     (if \<not> castable currentUserId \<or> \<not> castable targetUserId
      then (Response 500 (Error ''Failed to get user notes''), d)
      else case User_findById currentUserId (user_docs d) of
        None \<Rightarrow> (Response 404 (Error ''User not found''), d)
      | Some currentUser \<Rightarrow>
          (case User_findById targetUserId (user_docs d) of
             None \<Rightarrow> (Response 404 (Error ''User not found''), d)
           | Some targetUser \<Rightarrow>
               let isFriend = some (\<lambda>f. toString f = targetUserId) (friends currentUser);
                   isOwn = (currentUserId = targetUserId)
               in if \<not> isOwn \<and> \<not> isFriend
                  then (Response 403 (Error ''Not authorized to view notes''), d)
                  else if \<not> isOwn \<and> isPrivate targetUser
                  then (Response 403 (Error ''User profile is private''), d)
                  else
                    let notes_found = sort_pinned_date
                          (filter (user_notes_filter targetUserId isOwn) (note_docs d))
                    in (Response 200 (NoteViews_json (map (note_view currentUserId isOwn) notes_found)), d)))"

subsection \<open>The router\<close>

text \<open>
  An Express router is the list of its layers in the order of registration. A request
  walks the list: a middleware (\<open>Use\<close>) either answers the request, which ends the walk,
  or calls \<open>next()\<close> after setting \<open>req.userId\<close>; a route (\<open>Route\<close>) whose method and
  path do not match is passed over, and one that matches runs its handler, which answers.
  A request is given as the route it matches with the parameters, query and body the
  handler reads (\<open>notes_request\<close>). The walk ends in \<open>Sent\<close> with the response and the
  database left, in \<open>Fell_through\<close> when no layer answered, or in \<open>Handler_without_user\<close>
  when a handler was reached although no middleware had set \<open>req.userId\<close>.
\<close>

datatype notes_request =
    GET_root "string option" "string option"
  | GET_id string
  | POST_root note_body
  | PUT_id string note_body
  | DELETE_id string "string option"
  | POST_restore string
  | DELETE_trash_empty
  | POST_upload "string option"
  | POST_upload_file "UploadedFile option"
  | POST_like string
  | POST_duplicate string
  | PUT_visibility string bool
  | GET_user string

datatype 'c layer =
    Use "'c \<Rightarrow> response + string"
  | Route "notes_request \<Rightarrow> (string \<Rightarrow> db \<Rightarrow> response \<times> db) option"

datatype outcome = Sent response db | Fell_through | Handler_without_user

fun dispatch :: "'c layer list \<Rightarrow> 'c \<Rightarrow> string option \<Rightarrow> notes_request \<Rightarrow> db \<Rightarrow> outcome" where
  "dispatch [] credentials u req d = Fell_through"
| "dispatch (Use middleware # ls) credentials u req d =
     (case middleware credentials of
        Inl answer \<Rightarrow> Sent answer d
      | Inr uid \<Rightarrow> dispatch ls credentials (Some uid) req d)"
| "dispatch (Route matching # ls) credentials u req d =
     (case matching req of
        None \<Rightarrow> dispatch ls credentials u req d
      | Some handler \<Rightarrow>
          (case u of
             None \<Rightarrow> Handler_without_user
           | Some uid \<Rightarrow> Sent (fst (handler uid d)) (snd (handler uid d))))"

text \<open>
  The layers of \<open>routes/notes.ts\<close> as the file registers them:
  \<open>router.use(authMiddleware)\<close>, then the thirteen routes.
\<close>

definition notes_stack :: "env \<Rightarrow> ('c \<Rightarrow> response + string) \<Rightarrow> 'c layer list" where
  "notes_stack e authMiddleware =
     [Use authMiddleware,
      Route (\<lambda>r. case r of GET_root archived deleted \<Rightarrow> Some (\<lambda>uid. list_notes uid archived deleted) | _ \<Rightarrow> None),
      Route (\<lambda>r. case r of GET_id i \<Rightarrow> Some (\<lambda>uid. get_note uid i) | _ \<Rightarrow> None),
      Route (\<lambda>r. case r of POST_root b \<Rightarrow> Some (\<lambda>uid. create_note e uid b) | _ \<Rightarrow> None),
      Route (\<lambda>r. case r of PUT_id i b \<Rightarrow> Some (\<lambda>uid. update_note e uid i b) | _ \<Rightarrow> None),
      Route (\<lambda>r. case r of DELETE_id i permanent \<Rightarrow> Some (\<lambda>uid. delete_note e uid i permanent) | _ \<Rightarrow> None),
      Route (\<lambda>r. case r of POST_restore i \<Rightarrow> Some (\<lambda>uid. restore_note uid i) | _ \<Rightarrow> None),
      Route (\<lambda>r. case r of DELETE_trash_empty \<Rightarrow> Some (\<lambda>uid. empty_trash e uid) | _ \<Rightarrow> None),
      Route (\<lambda>r. case r of POST_upload image_req \<Rightarrow> Some (\<lambda>uid. upload_image e image_req) | _ \<Rightarrow> None),
      Route (\<lambda>r. case r of POST_upload_file file \<Rightarrow> Some (\<lambda>uid. upload_file e file) | _ \<Rightarrow> None),
      Route (\<lambda>r. case r of POST_like i \<Rightarrow> Some (\<lambda>uid. like_note uid i) | _ \<Rightarrow> None),
      Route (\<lambda>r. case r of POST_duplicate i \<Rightarrow> Some (\<lambda>uid. duplicate_note e uid i) | _ \<Rightarrow> None),
      Route (\<lambda>r. case r of PUT_visibility i p \<Rightarrow> Some (\<lambda>uid. set_visibility uid i p) | _ \<Rightarrow> None),
      Route (\<lambda>r. case r of GET_user i \<Rightarrow> Some (\<lambda>uid. get_user_notes uid i) | _ \<Rightarrow> None)]"

text \<open>The handler each request is for, with the user id it runs under.\<close>

fun notes_routes :: "env \<Rightarrow> string \<Rightarrow> notes_request \<Rightarrow> db \<Rightarrow> response \<times> db" where
  "notes_routes e uid (GET_root archived deleted) d = list_notes uid archived deleted d"
| "notes_routes e uid (GET_id i) d = get_note uid i d"
| "notes_routes e uid (POST_root b) d = create_note e uid b d"
| "notes_routes e uid (PUT_id i b) d = update_note e uid i b d"
| "notes_routes e uid (DELETE_id i permanent) d = delete_note e uid i permanent d"
| "notes_routes e uid (POST_restore i) d = restore_note uid i d"
| "notes_routes e uid DELETE_trash_empty d = empty_trash e uid d"
| "notes_routes e uid (POST_upload image_req) d = upload_image e image_req d"
| "notes_routes e uid (POST_upload_file file) d = upload_file e file d"
| "notes_routes e uid (POST_like i) d = like_note uid i d"
| "notes_routes e uid (POST_duplicate i) d = duplicate_note e uid i d"
| "notes_routes e uid (PUT_visibility i p) d = set_visibility uid i p d"
| "notes_routes e uid (GET_user i) d = get_user_notes uid i d"

text \<open>
  Modelled from the spec: the auth check, \<open>authMiddleware\<close> of \<open>middleware/auth\<close>, which
  is not among the sources. The spec gives the control flow as ``HTTP request, auth
  check, single document read/write, JSON response'': a request either passes the check,
  which establishes who sends it, or does not pass and is answered by the check. How a
  request proves its sender and what the refusal says are not in the spec; they are the
  inputs \<open>verify\<close> and \<open>refusal\<close>.
\<close>

definition authMiddleware :: "('c \<Rightarrow> string option) \<Rightarrow> response \<Rightarrow> 'c \<Rightarrow> response + string" where
  "authMiddleware verify refusal credentials =
     (case verify credentials of None \<Rightarrow> Inl refusal | Some uid \<Rightarrow> Inr uid)"

definition notes_router ::
  "env \<Rightarrow> ('c \<Rightarrow> string option) \<Rightarrow> response \<Rightarrow> 'c \<Rightarrow> notes_request \<Rightarrow> db \<Rightarrow> outcome" where
  "notes_router e verify refusal credentials req d =
     dispatch (notes_stack e (authMiddleware verify refusal)) credentials None req d"

section \<open>The user routes\<close>

text \<open>
  The registration and the four friend-lifecycle handlers of the authentication router.
  The friend handlers run behind \<open>authMiddleware\<close> and take the authenticated user's id.
  Each of them reads the two users, changes the two documents in memory and saves both.
\<close>

subsection \<open>\<open>POST /register\<close>\<close>

text \<open>
  A query on \<open>email\<close> goes through the schema's setters like a stored value does, so
  \<open>findOne\<close> compares the stored addresses with the lowercased and trimmed request
  address. The new document takes the schema's defaults, its \<open>email\<close> and \<open>name\<close>
  pass the setters, \<open>save\<close> validates it and the \<open>pre('save')\<close> hook stores the hash
  of the password.
\<close>

definition User_findByEmail :: "string \<Rightarrow> IUser list \<Rightarrow> IUser option" where
  "User_findByEmail q us = findOne (\<lambda>u. email u = email_setters q) us"

definition register :: "env \<Rightarrow> register_body \<Rightarrow> db \<Rightarrow> response \<times> db" where
  "register e b d =
     (let email_req = given (r_email b);
          password_req = given (r_password b);
          name_req = given (r_name b)
      in if email_req = [] \<or> password_req = [] \<or> name_req = []
         then (Response 400 (Error ''All fields are required''), d)
         else if length password_req < 6
         then (Response 400 (Error ''Password must be at least 6 characters''), d)
         else (case User_findByEmail (toLowerCase email_req) (user_docs d) of
                 Some existingUser \<Rightarrow> (Response 400 (Error ''Email already registered''), d)
               | None \<Rightarrow>
                   let user = (UserSchema_defaults (fresh_ObjectId e))\<lparr>
                         email := email_setters (toLowerCase email_req),
                         password := Some password_req,
                         name := trim name_req\<rparr>;
                       accessToken = generateAccessToken e (toString (user_id user));
                       refreshToken_new = generateRefreshToken e (toString (user_id user));
                       user = user\<lparr>refreshToken := Some refreshToken_new\<rparr>
                   in if UserSchema_valid user
                      then (Response 201 (Registered_json
                              \<lparr>reg_message = ''Registration successful'', reg_id = user_id user,
                               reg_email = email user, reg_name = name user,
                               reg_accessToken = accessToken, reg_refreshToken = refreshToken_new\<rparr>),
                            d\<lparr>user_docs := insertOne (user\<lparr>password := Some (bcrypt_hash e password_req)\<rparr>)
                                             (user_docs d)\<rparr>)
                      else (Response 500 (Error ''Failed to register''), d)))"

subsection \<open>Friend requests\<close>

definition send_friend_request :: "string \<Rightarrow> string \<Rightarrow> db \<Rightarrow> response \<times> db" where
  "send_friend_request uid targetUserId d =
     (if targetUserId = uid
      then (Response 400 (Error ''Cannot send friend request to yourself''), d)
      else if \<not> castable uid \<or> \<not> castable targetUserId
      then (Response 500 (Error ''Failed to send friend request''), d)
      else case User_findById uid (user_docs d) of
             None \<Rightarrow> (Response 404 (Error ''User not found''), d)
           | Some currentUser \<Rightarrow>
               (case User_findById targetUserId (user_docs d) of
                  None \<Rightarrow> (Response 404 (Error ''User not found''), d)
                | Some targetUser \<Rightarrow>
                    if some (\<lambda>f. toString f = targetUserId) (friends currentUser)
                    then (Response 400 (Error ''Already friends''), d)
                    else if some (\<lambda>f. toString f = targetUserId) (sentFriendRequests currentUser)
                    then (Response 400 (Error ''Friend request already sent''), d)
                    else
                      let currentUser' = currentUser\<lparr>sentFriendRequests :=
                            sentFriendRequests currentUser @ [user_id targetUser]\<rparr>;
                          targetUser' = targetUser\<lparr>friendRequests :=
                            friendRequests targetUser @ [user_id currentUser]\<rparr>;
                          saved = push_two
                            currentUser' (\<lambda>s. s\<lparr>sentFriendRequests :=
                                             sentFriendRequests s @ [user_id targetUser]\<rparr>)
                            targetUser' (\<lambda>s. s\<lparr>friendRequests :=
                                             friendRequests s @ [user_id currentUser]\<rparr>)
                            (user_docs d)
                      in if fst saved
                         then (Response 200 (Message ''Friend request sent''),
                               d\<lparr>user_docs := snd saved\<rparr>)
                         else (Response 500 (Error ''Failed to send friend request''),
                               d\<lparr>user_docs := snd saved\<rparr>)))"

text \<open>
  In \<open>accept\<close> each copy assigns one array and pushes onto \<open>friends\<close>; in \<open>decline\<close>
  and \<open>remove\<close> each copy assigns one array. The filters compare the rendering of a
  stored identifier with the raw string of the URL (\<open>requesterUserId\<close>,
  \<open>friendUserId\<close>) and of the token (\<open>req.userId\<close>).
\<close>

definition accept_friend_request :: "string \<Rightarrow> string \<Rightarrow> db \<Rightarrow> response \<times> db" where
  "accept_friend_request uid requesterUserId d =
     (if \<not> castable uid \<or> \<not> castable requesterUserId
      then (Response 500 (Error ''Failed to accept friend request''), d)
      else case User_findById uid (user_docs d) of
        None \<Rightarrow> (Response 404 (Error ''User not found''), d)
      | Some currentUser \<Rightarrow>
          (case User_findById requesterUserId (user_docs d) of
             None \<Rightarrow> (Response 404 (Error ''User not found''), d)
           | Some requesterUser \<Rightarrow>
               if \<not> some (\<lambda>f. toString f = requesterUserId) (friendRequests currentUser)
               then (Response 400 (Error ''No friend request from this user''), d)
               else
                 let currentUser' = currentUser\<lparr>
                       friendRequests := filter (\<lambda>f. toString f \<noteq> requesterUserId) (friendRequests currentUser),
                       friends := friends currentUser @ [user_id requesterUser]\<rparr>;
                     requesterUser' = requesterUser\<lparr>
                       sentFriendRequests := filter (\<lambda>f. toString f \<noteq> uid) (sentFriendRequests requesterUser),
                       friends := friends requesterUser @ [user_id currentUser]\<rparr>;
                     saved = save_two currentUser' requesterUser' (user_docs d)
                 in if fst saved
                    then (Response 200 (Message ''Friend request accepted''),
                          d\<lparr>user_docs := snd saved\<rparr>)
                    else (Response 500 (Error ''Failed to accept friend request''),
                          d\<lparr>user_docs := snd saved\<rparr>)))"

definition decline_friend_request :: "string \<Rightarrow> string \<Rightarrow> db \<Rightarrow> response \<times> db" where
  "decline_friend_request uid requesterUserId d =
     (if \<not> castable uid \<or> \<not> castable requesterUserId
      then (Response 500 (Error ''Failed to decline friend request''), d)
      else case User_findById uid (user_docs d) of
        None \<Rightarrow> (Response 404 (Error ''User not found''), d)
      | Some currentUser \<Rightarrow>
          (case User_findById requesterUserId (user_docs d) of
             None \<Rightarrow> (Response 404 (Error ''User not found''), d)
           | Some requesterUser \<Rightarrow>
               let currentUser' = currentUser\<lparr>
                     friendRequests := filter (\<lambda>f. toString f \<noteq> requesterUserId) (friendRequests currentUser)\<rparr>;
                   requesterUser' = requesterUser\<lparr>
                     sentFriendRequests := filter (\<lambda>f. toString f \<noteq> uid) (sentFriendRequests requesterUser)\<rparr>;
                   saved = save_two currentUser' requesterUser' (user_docs d)
               in if fst saved
                  then (Response 200 (Message ''Friend request declined''),
                        d\<lparr>user_docs := snd saved\<rparr>)
                  else (Response 500 (Error ''Failed to decline friend request''),
                        d\<lparr>user_docs := snd saved\<rparr>)))"

definition remove_friend :: "string \<Rightarrow> string \<Rightarrow> db \<Rightarrow> response \<times> db" where
  "remove_friend uid friendUserId d =
     (if \<not> castable uid \<or> \<not> castable friendUserId
      then (Response 500 (Error ''Failed to remove friend''), d)
      else case User_findById uid (user_docs d) of
        None \<Rightarrow> (Response 404 (Error ''User not found''), d)
      | Some currentUser \<Rightarrow>
          (case User_findById friendUserId (user_docs d) of
             None \<Rightarrow> (Response 404 (Error ''User not found''), d)
           | Some friendUser \<Rightarrow>
               let currentUser' = currentUser\<lparr>
                     friends := filter (\<lambda>f. toString f \<noteq> friendUserId) (friends currentUser)\<rparr>;
                   friendUser' = friendUser\<lparr>
                     friends := filter (\<lambda>f. toString f \<noteq> uid) (friends friendUser)\<rparr>;
                   saved = save_two currentUser' friendUser' (user_docs d)
               in if fst saved
                  then (Response 200 (Message ''Friend removed''),
                        d\<lparr>user_docs := snd saved\<rparr>)
                  else (Response 500 (Error ''Failed to remove friend''),
                        d\<lparr>user_docs := snd saved\<rparr>)))"

section \<open>Properties and example data\<close>

text \<open>
  Friendship is symmetric in a collection of users when, for any two of its users, the
  first lists the second as a friend exactly when the second lists the first.
\<close>

definition friendship_symmetric :: "IUser list \<Rightarrow> bool" where
  "friendship_symmetric us =
     (\<forall>u \<in> set us. \<forall>v \<in> set us.
        (user_id v \<in> set (friends u)) = (user_id u \<in> set (friends v)))"

definition friends_of :: "string \<Rightarrow> IUser list \<Rightarrow> ObjectId list" where
  "friends_of i us = (case User_findById i us of None \<Rightarrow> [] | Some u \<Rightarrow> friends u)"


text \<open>
  What the claim on images says of one request image \<open>r\<close>, handled as the \<open>j\<close>-th, and
  the image \<open>s\<close> stored for it: a \<open>data:\<close> image is replaced by the copy the upload
  service returned, under the given id or, when none was given, under the rendering of the
  current time; any other image is stored as given. \<open>images_as_claimed\<close> says it of the
  whole list, position by position.
\<close>

definition image_as_claimed :: "env \<Rightarrow> nat \<Rightarrow> IImage \<Rightarrow> IImage \<Rightarrow> bool" where
  "image_as_claimed e j r s =
     (if startsWith (img_url r) ''data:''
      then (case uploadBase64 e (img_url r) of
              None \<Rightarrow> False
            | Some up \<Rightarrow>
                img_url s = up_url up \<and> img_publicId s = up_publicId up
                \<and> img_id s = (if img_id r \<noteq> [] then img_id r else nat_toString (Date_now e j)))
      else s = r)"

definition images_as_claimed :: "env \<Rightarrow> IImage list \<Rightarrow> IImage list \<Rightarrow> bool" where
  "images_as_claimed e req stored =
     list_all2 (\<lambda>(j, r) s. image_as_claimed e j r s) (enumerate 0 req) stored"

definition images_of_body :: "note_body \<Rightarrow> IImage list" where
  "images_of_body b = (case b_images b of None \<Rightarrow> [] | Some xs \<Rightarrow> xs)"

text \<open>
  A small database for the examples: the users Ann, Bob and Cat, Ann and Bob being
  friends, and two notes of Ann, the second one private. \<open>ID_BOB\<close> and \<open>ID_N1\<close> are
  Bob's id and the first note's id written in upper case.
\<close>

abbreviation id_ann :: string where "id_ann \<equiv> ''aaaaaaaaaaaaaaaaaaaaaaaa''"
abbreviation id_bob :: string where "id_bob \<equiv> ''bbbbbbbbbbbbbbbbbbbbbbbb''"
abbreviation ID_BOB :: string where "ID_BOB \<equiv> ''BBBBBBBBBBBBBBBBBBBBBBBB''"
abbreviation id_cat :: string where "id_cat \<equiv> ''cccccccccccccccccccccccc''"
abbreviation id_n1 :: string where "id_n1 \<equiv> ''0000000000000000000000a1''"
abbreviation ID_N1 :: string where "ID_N1 \<equiv> ''0000000000000000000000A1''"
abbreviation id_n2 :: string where "id_n2 \<equiv> ''0000000000000000000000a2''"
abbreviation id_new :: string where "id_new \<equiv> ''ffffffffffffffffffffffff''"

definition mk_user :: "string \<Rightarrow> string \<Rightarrow> string \<Rightarrow> ObjectId list \<Rightarrow> IUser" where
  "mk_user i nm addr fr =
     (UserSchema_defaults (ObjectId i))\<lparr>email := addr, name := nm, friends := fr\<rparr>"

definition mk_note :: "string \<Rightarrow> string \<Rightarrow> bool \<Rightarrow> nat \<Rightarrow> INote" where
  "mk_note i ownerId pub t =
     (NoteSchema_defaults (ObjectId i) t)\<lparr>title := ''note'', userId := Some ownerId, isPublic := pub\<rparr>"

definition ann :: IUser where
  "ann = mk_user id_ann ''Ann'' ''ann@x.io'' [ObjectId id_bob]"

definition bob :: IUser where
  "bob = mk_user id_bob ''Bob'' ''bob@x.io'' [ObjectId id_ann]"

definition cat :: IUser where
  "cat = mk_user id_cat ''Cat'' ''cat@x.io'' []"

definition note1 :: INote where
  "note1 = mk_note id_n1 id_ann True 10"

definition note2 :: INote where
  "note2 = mk_note id_n2 id_ann False 20"

definition db0 :: db where
  "db0 = \<lparr>user_docs = [ann, bob], note_docs = [note1, note2]\<rparr>"

definition db1 :: db where
  "db1 = \<lparr>user_docs = [ann, bob, cat], note_docs = [note1, note2]\<rparr>"

definition env0 :: env where
  "env0 = \<lparr>uploadBase64 = (\<lambda>s. Some \<lparr>up_url = ''https://cdn/'' @ drop 5 s, up_publicId = ''pid''\<rparr>),
           uploadFile = (\<lambda>f. Some \<lparr>up_url = ''https://cdn/file'', up_publicId = ''pid''\<rparr>),
           deleteFile = (\<lambda>p. True),
           new_Date = 100,
           Date_now = (\<lambda>k. 100 + k),
           fresh_ObjectId = ObjectId id_new,
           bcrypt_hash = (\<lambda>p. ''#'' @ p),
           generateAccessToken = (\<lambda>i. ''access-'' @ i),
           generateRefreshToken = (\<lambda>i. ''refresh-'' @ i)\<rparr>"

definition body0 :: note_body where
  "body0 = \<lparr>b_title = Some ''t'', b_content = None, b_color = None,
            b_images = Some [\<lparr>img_id = [], img_url = ''data:abc'', img_publicId = []\<rparr>,
                             \<lparr>img_id = ''7'', img_url = ''http://a'', img_publicId = ''p''\<rparr>],
            b_isPinned = None, b_isArchived = None\<rparr>"

definition images0 :: "IImage list" where
  "images0 = [\<lparr>img_id = ''100'', img_url = ''https://cdn/abc'', img_publicId = ''pid''\<rparr>,
              \<lparr>img_id = ''7'', img_url = ''http://a'', img_publicId = ''p''\<rparr>]"

text \<open>
  A request body whose image has no storage id, and the first note as \<open>PUT /:id\<close>
  stores it for that body.
\<close>

definition body_bad :: note_body where
  "body_bad = \<lparr>b_title = Some ''note'', b_content = None, b_color = None,
               b_images = Some [\<lparr>img_id = ''7'', img_url = ''http://a'', img_publicId = []\<rparr>],
               b_isPinned = None, b_isArchived = None\<rparr>"

definition note_bad :: INote where
  "note_bad = note1\<lparr>images := [\<lparr>img_id = ''7'', img_url = ''http://a'', img_publicId = []\<rparr>],
                    date := 100\<rparr>"

definition db_bad :: db where
  "db_bad = db0\<lparr>note_docs := [note_bad, note2]\<rparr>"

text \<open>A token check and a refusal for the examples.\<close>

definition verify0 :: "string \<Rightarrow> string option" where
  "verify0 credentials = (if credentials = ''token-ann'' then Some id_ann else None)"

definition refusal0 :: response where
  "refusal0 = Response 401 (Error ''Unauthorized'')"

definition reg_cat :: register_body where
  "reg_cat = \<lparr>r_email = Some '' Cat@X.io'', r_password = Some ''secret'', r_name = Some ''Cat''\<rparr>"

definition reg_new :: register_body where
  "reg_new = \<lparr>r_email = Some ''New@X.io '', r_password = Some ''secret'', r_name = Some '' New''\<rparr>"

definition reg_short :: register_body where
  "reg_short = \<lparr>r_email = Some ''new@x.io'', r_password = Some ''12345'', r_name = Some ''New''\<rparr>"

section \<open>Facts\<close>

subsection \<open>Identifiers\<close>

lemma hex_lower_lower: "is_lower_hex c \<Longrightarrow> hex_lower c = c"
  by (auto simp: is_lower_hex_def hex_lower_def)

lemma is_lower_hex_hex_lower: "is_hex c \<Longrightarrow> is_lower_hex (hex_lower c)"
  by (auto simp: is_hex_def is_lower_hex_def hex_lower_def)

lemma is_lower_hex_is_hex: "is_lower_hex c \<Longrightarrow> is_hex c"
  by (auto simp: is_hex_def is_lower_hex_def)

lemma canonical_map_hex_lower:
  "length s = 24 \<Longrightarrow> list_all is_hex s \<Longrightarrow> canonical (map hex_lower s)"
  by (simp add: canonical_def list_all_iff is_lower_hex_hex_lower)

lemma canonical_hex_lower_id: "canonical s \<Longrightarrow> map hex_lower s = s"
  by (simp add: canonical_def list_all_iff map_idI hex_lower_lower)

lemma canonical_toString: "canonical (toString i)"
  using Rep_ObjectId [of i] by (simp add: toString_def)

lemma toString_eq_iff: "toString a = toString b \<longleftrightarrow> a = b"
  by (simp add: toString_def Rep_ObjectId_inject)

lemma toString_ObjectId: "canonical s \<Longrightarrow> toString (ObjectId s) = s"
  by (simp add: toString_def ObjectId_def canonical_hex_lower_id Abs_ObjectId_inverse)

lemma ObjectId_toString: "ObjectId (toString i) = i"
  by (simp add: ObjectId_def canonical_hex_lower_id canonical_toString)
     (simp add: toString_def Rep_ObjectId_inverse)

lemma ObjectId_eq_iff:
  "canonical s \<Longrightarrow> canonical t \<Longrightarrow> ObjectId s = ObjectId t \<longleftrightarrow> s = t"
  using toString_ObjectId by metis

lemma castObjectId_canonical: "canonical s \<Longrightarrow> castObjectId s = Some (ObjectId s)"
  by (simp add: castObjectId_def canonical_def list_all_iff is_lower_hex_is_hex)

lemma castObjectId_toString: "castObjectId (toString i) = Some i"
  by (simp add: castObjectId_canonical canonical_toString ObjectId_toString)

lemma castable_toString: "castable (toString i)"
  by (simp add: castable_def castObjectId_toString)

lemma toString_eq_conv: "toString i = s \<longleftrightarrow> castObjectId s = Some i \<and> canonical s"
proof
  assume "toString i = s"
  then show "castObjectId s = Some i \<and> canonical s"
    using castObjectId_toString [of i] canonical_toString [of i] by simp
next
  assume "castObjectId s = Some i \<and> canonical s"
  then show "toString i = s"
    using castObjectId_canonical [of s] toString_ObjectId [of s] by auto
qed

lemma castObjectId_Some_castable: "castObjectId s = Some i \<Longrightarrow> castable s"
  by (simp add: castable_def)

lemma castable_iff: "castable s \<longleftrightarrow> (\<exists>i. castObjectId s = Some i)"
  by (simp add: castable_def)

lemma canonical_examples:
  "canonical id_ann" "canonical id_bob" "canonical id_cat" "canonical id_n1" "canonical id_n2"
  "canonical id_new"
  by (simp_all add: canonical_def is_lower_hex_def)

lemma castObjectId_ID_BOB: "castObjectId ID_BOB = Some (ObjectId id_bob)"
  by (simp add: castObjectId_def is_hex_def ObjectId_def hex_lower_def)

lemma castObjectId_ID_N1: "castObjectId ID_N1 = Some (ObjectId id_n1)"
  by (simp add: castObjectId_def is_hex_def ObjectId_def hex_lower_def)

lemma castObjectId_malformed: "castObjectId ''xyz'' = None"
  by (simp add: castObjectId_def)

subsection \<open>Lookups and updates\<close>

lemma find_updateOne_same:
  "find P xs = Some x \<Longrightarrow> P (f x) \<Longrightarrow> find P (updateOne P f xs) = Some (f x)"
  by (induction xs) (auto split: if_splits)

lemma find_updateOne_result:
  "find P (updateOne P g xs) = Some y \<Longrightarrow> (\<forall>x. P x \<longrightarrow> P (g x)) \<Longrightarrow>
   \<exists>x. find P xs = Some x \<and> y = g x"
  by (induction xs) (auto split: if_splits)

lemma find_conj_unique:
  "distinct (map f xs) \<Longrightarrow> find (\<lambda>x. f x = a \<and> Q x) xs = Some x \<Longrightarrow> find (\<lambda>x. f x = a) xs = Some x"
proof (induction xs)
  case Nil
  then show ?case by simp
next
  case (Cons y ys)
  show ?case
  proof (cases "f y = a")
    case False
    with Cons show ?thesis by simp
  next
    case True
    have "x = y"
    proof (cases "Q y")
      case True
      with \<open>f y = a\<close> Cons.prems(2) show ?thesis by simp
    next
      case False
      with Cons.prems(2) have "find (\<lambda>x. f x = a \<and> Q x) ys = Some x" by simp
      then have "x \<in> set ys" and "f x = a"
        by (auto simp: find_Some_iff)
      with Cons.prems(1) \<open>f y = a\<close> show ?thesis by (force simp: image_iff)
    qed
    with True show ?thesis by simp
  qed
qed

lemma updateOne_unique_map:
  "distinct (map f xs) \<Longrightarrow> updateOne (\<lambda>x. f x = a) g xs = map (\<lambda>x. if f x = a then g x else x) xs"
proof (induction xs)
  case Nil
  then show ?case by simp
next
  case (Cons y ys)
  show ?case
  proof (cases "f y = a")
    case False
    with Cons show ?thesis by simp
  next
    case True
    with Cons.prems have "\<forall>x \<in> set ys. f x \<noteq> a" by (force simp: image_iff)
    then have "map (\<lambda>x. if f x = a then g x else x) ys = ys"
      by (simp add: map_idI)
    with True show ?thesis by simp
  qed
qed

subsection \<open>Listings and new notes\<close>



lemma set_sort_pinned_date: "set (sort_pinned_date ns) = set ns"
  by (simp add: sort_pinned_date_def)

lemma list_notes_set:
  "fst (list_notes uid archived deleted d) = Response 200 (Notes_json ns) \<Longrightarrow>
   set ns = {n \<in> set (note_docs d). list_filter uid archived deleted n}"
  by (auto simp: list_notes_def set_sort_pinned_date)

lemma create_note_cases:
  "create_note e uid b d = (Response 500 (Error ''Failed to create note''), d)
   \<or> (\<exists>n. create_note e uid b d =
            (Response 201 (Note_json n), d\<lparr>note_docs := note_docs d @ [n]\<rparr>)
          \<and> uploadedImages_of e (b_images b) = Some (images n)
          \<and> \<not> isArchived n \<and> \<not> isDeleted n \<and> likes n = [] \<and> isPublic n
          \<and> userId n = Some uid \<and> deletedAt n = None \<and> note_id n = fresh_ObjectId e)"
  by (auto simp: create_note_def Let_def insertOne_def NoteSchema_defaults_def split: option.splits)

subsection \<open>The image loop\<close>

lemma upload_images_as_claimed:
  "upload_images e k imgs = Some out \<Longrightarrow>
   list_all2 (\<lambda>(j, r) s. image_as_claimed e j r s) (enumerate k imgs) out"
proof (induction imgs arbitrary: k out)
  case Nil
  then show ?case by simp
next
  case (Cons img imgs)
  from Cons.prems obtain rest where rest: "upload_images e (Suc k) imgs = Some rest"
    by (auto split: if_splits option.splits)
  have "\<exists>s. out = s # rest \<and> image_as_claimed e k img s"
  proof (cases "startsWith (img_url img) ''data:''")
    case False
    with Cons.prems rest show ?thesis
      by (auto simp: image_as_claimed_def)
  next
    case True
    with Cons.prems obtain up where up: "uploadBase64 e (img_url img) = Some up"
      by (auto split: option.splits)
    with True Cons.prems rest
    have "out = \<lparr>img_id = (if img_id img \<noteq> [] then img_id img else nat_toString (Date_now e k)),
                  img_url = up_url up, img_publicId = up_publicId up\<rparr> # rest"
      by auto
    with True up show ?thesis
      by (simp add: image_as_claimed_def)
  qed
  then obtain s where out: "out = s # rest" and s: "image_as_claimed e k img s"
    by blast
  from Cons.IH [OF rest] out s show ?case by simp
qed

lemma upload_images_total:
  "(\<forall>r \<in> set imgs. startsWith (img_url r) ''data:'' \<longrightarrow> uploadBase64 e (img_url r) \<noteq> None)
   \<Longrightarrow> upload_images e k imgs \<noteq> None"
proof (induction imgs arbitrary: k)
  case Nil
  then show ?case by simp
next
  case (Cons img imgs)
  from Cons.prems have "upload_images e (Suc k) imgs \<noteq> None"
    by (intro Cons.IH) simp
  moreover from Cons.prems
  have "startsWith (img_url img) ''data:'' \<longrightarrow> uploadBase64 e (img_url img) \<noteq> None"
    by simp
  ultimately show ?case
    by (auto split: option.splits)
qed

lemma uploadedImages_of_as_claimed:
  "uploadedImages_of e (b_images b) = Some out \<Longrightarrow> images_as_claimed e (images_of_body b) out"
  by (auto simp: uploadedImages_of_def images_as_claimed_def images_of_body_def
      upload_images_as_claimed split: option.splits)

lemma duplicate_note_cases:
  "(snd (duplicate_note e uid i d) = d \<and> status (fst (duplicate_note e uid i d)) \<noteq> 201)
   \<or> (\<exists>n. duplicate_note e uid i d =
            (Response 201 (Note_json n), d\<lparr>note_docs := note_docs d @ [n]\<rparr>)
          \<and> isPublic n \<and> \<not> isPinned n \<and> \<not> isArchived n \<and> \<not> isDeleted n \<and> likes n = []
          \<and> userId n = Some uid \<and> note_id n = fresh_ObjectId e)"
  by (auto simp: duplicate_note_def Let_def insertOne_def NoteSchema_defaults_def
      split: option.splits)

lemma Note_findById_update_result:
  assumes "Note_findById i (Note_findByIdAndUpdate i g ns) = Some n"
    and "\<forall>x. note_id (g x) = note_id x"
  shows "\<exists>x. Note_findById i ns = Some x \<and> n = g x"
proof (cases "castObjectId i")
  case None
  with assms(1) show ?thesis by (simp add: Note_findById_def)
next
  case (Some oid)
  with assms(1) have "find (\<lambda>n. note_id n = oid) (updateOne (\<lambda>n. note_id n = oid) g ns) = Some n"
    by (simp add: Note_findById_def Note_findByIdAndUpdate_def findOne_def)
  then have "\<exists>x. find (\<lambda>n. note_id n = oid) ns = Some x \<and> n = g x"
    using assms(2) by (intro find_updateOne_result) auto
  with Some show ?thesis
    by (simp add: Note_findById_def findOne_def)
qed

lemma update_note_ok_images:
  assumes "update_note e uid i b d = (Response 200 (Note_json n), d')"
  shows "uploadedImages_of e (b_images b) = Some (images n)
       \<and> Note_findById i (note_docs d') = Some n"
proof -
  from assms obtain out where
    up: "uploadedImages_of e (b_images b) = Some out"
    and d': "d' = d\<lparr>note_docs := Note_findByIdAndUpdate i (\<lambda>n. n\<lparr>
                          title := or_else (b_title b) ''Untitled'',
                          content := (case b_content b of None \<Rightarrow> content n | Some c \<Rightarrow> c),
                          color := (case b_color b of None \<Rightarrow> color n | Some c \<Rightarrow> c),
                          images := out,
                          date := new_Date e,
                          isPinned := (case b_isPinned b of None \<Rightarrow> isPinned n | Some p \<Rightarrow> p),
                          isArchived := (case b_isArchived b of None \<Rightarrow> isArchived n | Some a \<Rightarrow> a)\<rparr>)
                       (note_docs d)\<rparr>"
    and f: "Note_findById i (note_docs d') = Some n"
    by (auto simp: update_note_def Let_def split: option.splits if_splits)
  from f [unfolded d'] have "images n = out"
    by (auto dest!: Note_findById_update_result)
  with up f show ?thesis by simp
qed

subsection \<open>The example data\<close>

lemmas ex_defs = db0_def db1_def note1_def note2_def ann_def bob_def cat_def mk_note_def
  mk_user_def NoteSchema_defaults_def UserSchema_defaults_def

lemmas ex_ids = canonical_examples castObjectId_canonical ObjectId_eq_iff toString_ObjectId
  castable_def

lemma nat_toString_100: "nat_toString 100 = ''100''"
  by code_simp

lemma uploadedImages_of_body0: "uploadedImages_of env0 (b_images body0) = Some images0"
  by (simp add: uploadedImages_of_def body0_def images0_def env0_def startsWith_def
      nat_toString_100)

lemma body0_fields:
  "b_title body0 = Some ''t''" "b_content body0 = None" "b_color body0 = None"
  "b_isPinned body0 = None" "b_isArchived body0 = None"
  by (simp_all add: body0_def)

lemma db0_find_n1: "Note_findById id_n1 (note_docs db0) = Some note1"
  by (simp add: Note_findById_def findOne_def ex_defs ex_ids)

lemma db0_find_n2: "Note_findById id_n2 (note_docs db0) = Some note2"
  by (simp add: Note_findById_def findOne_def ex_defs ex_ids)

lemma db0_own_n1: "Note_findOwn id_n1 id_ann (note_docs db0) = Some note1"
  by (simp add: Note_findOwn_def findOne_def ex_defs ex_ids)

lemma db0_users:
  "User_findById id_ann (user_docs db0) = Some ann"
  "User_findById id_bob (user_docs db0) = Some bob"
  "User_findById ID_BOB (user_docs db0) = Some bob"
  by (simp_all add: User_findById_def findOne_def castObjectId_ID_BOB ex_defs ex_ids)


subsection \<open>Trash\<close>

lemma Note_findOwn_findById:
  "unique_note_ids ns \<Longrightarrow> Note_findOwn s uid ns = Some n \<Longrightarrow> Note_findById s ns = Some n"
  unfolding Note_findOwn_def Note_findById_def findOne_def unique_note_ids_def
  by (auto split: option.splits dest: find_conj_unique)

lemma Note_findOwn_Some:
  "Note_findOwn s uid ns = Some n \<Longrightarrow>
   castObjectId s = Some (note_id n) \<and> n \<in> set ns \<and> userId n = Some uid"
  by (auto simp: Note_findOwn_def findOne_def find_Some_iff split: option.splits)

lemma Note_findByIdAndUpdate_map:
  "unique_note_ids ns \<Longrightarrow> castObjectId s = Some i \<Longrightarrow>
   Note_findByIdAndUpdate s g ns = map (\<lambda>n. if note_id n = i then g n else n) ns"
  unfolding Note_findByIdAndUpdate_def unique_note_ids_def
  by (simp add: updateOne_unique_map)

lemma delete_note_soft:
  assumes "unique_note_ids (note_docs d)"
    and "Note_findOwn noteId uid (note_docs d) = Some note"
    and "permanent \<noteq> Some ''true''"
  shows "delete_note e uid noteId permanent d =
     (Response 200 (Message ''Note moved to trash''),
      d\<lparr>note_docs := map (\<lambda>n. if note_id n = note_id note
                               then n\<lparr>isDeleted := True, deletedAt := Some (new_Date e)\<rparr> else n)
                         (note_docs d)\<rparr>)"
proof -
  have c: "castObjectId noteId = Some (note_id note)"
    using assms(2) by (simp add: Note_findOwn_Some)
  then show ?thesis
    using assms by (simp add: delete_note_def castable_def Note_findByIdAndUpdate_map)
qed

lemma Note_findTrashed_None:
  "castObjectId noteId = Some i \<Longrightarrow>
   Note_findTrashed noteId uid ns = None \<longleftrightarrow>
     \<not> (\<exists>n \<in> set ns. note_id n = i \<and> userId n = Some uid \<and> isDeleted n)"
  by (auto simp: Note_findTrashed_def findOne_def find_None_iff)

lemma restore_note_found:
  assumes "unique_note_ids (note_docs d)" and "castObjectId noteId = Some i"
    and "\<exists>n \<in> set (note_docs d). note_id n = i \<and> userId n = Some uid \<and> isDeleted n"
  shows "restore_note uid noteId d =
     (Response 200 (Message ''Note restored successfully''),
      d\<lparr>note_docs := map (\<lambda>n. if note_id n = i
                               then n\<lparr>isDeleted := False, deletedAt := None\<rparr> else n)
                         (note_docs d)\<rparr>)"
proof -
  have "Note_findTrashed noteId uid (note_docs d) \<noteq> None"
    using assms(2,3) by (simp add: Note_findTrashed_None)
  then show ?thesis
    using assms(1,2)
    by (auto simp: restore_note_def castable_def Note_findByIdAndUpdate_map)
qed

lemma restore_note_not_found:
  assumes "castObjectId noteId = Some i"
    and "\<not> (\<exists>n \<in> set (note_docs d). note_id n = i \<and> userId n = Some uid \<and> isDeleted n)"
  shows "restore_note uid noteId d = (Response 404 (Error ''Note not found in trash''), d)"
proof -
  have "Note_findTrashed noteId uid (note_docs d) = None"
    using assms by (simp add: Note_findTrashed_None)
  then show ?thesis
    using assms(1) by (simp add: restore_note_def castable_def)
qed

subsection \<open>The like toggle\<close>

lemma toString_eq_canonical: "canonical uid \<Longrightarrow> toString i = uid \<longleftrightarrow> i = ObjectId uid"
  by (auto simp: toString_eq_conv castObjectId_canonical)

lemma some_toString_iff:
  "canonical uid \<Longrightarrow> some (\<lambda>i. toString i = uid) ls \<longleftrightarrow> ObjectId uid \<in> set ls"
  by (auto simp: some_def list_ex_iff toString_eq_canonical)

lemma toggle_likes_eq:
  assumes "canonical uid"
  shows "toggle_likes uid (ObjectId uid) ls =
     (if ObjectId uid \<in> set ls then removeAll (ObjectId uid) ls else ls @ [ObjectId uid])"
proof -
  have "filter (\<lambda>i. toString i \<noteq> uid) ls = removeAll (ObjectId uid) ls"
    using assms by (induction ls) (auto simp: toString_eq_canonical)
  then show ?thesis
    using assms by (simp add: toggle_likes_def some_toString_iff)
qed

lemma Note_findById_Some:
  "Note_findById s ns = Some n \<Longrightarrow> castObjectId s = Some (note_id n) \<and> n \<in> set ns"
  by (auto simp: Note_findById_def findOne_def find_Some_iff split: option.splits)

lemma Note_findById_save:
  assumes "Note_findById s ns = Some n" and "note_id n' = note_id n"
  shows "Note_findById s (Note_save n' ns) = Some n'"
proof -
  have c: "castObjectId s = Some (note_id n)"
    using assms(1) by (simp add: Note_findById_Some)
  then have "find (\<lambda>d. note_id d = note_id n) ns = Some n"
    using assms(1) by (simp add: Note_findById_def findOne_def)
  then have "find (\<lambda>d. note_id d = note_id n)
      (updateOne (\<lambda>d. note_id d = note_id n) (\<lambda>_. n') ns) = Some ((\<lambda>_. n') n)"
    using assms(2) by (intro find_updateOne_same) simp_all
  then show ?thesis
    using c assms(2) by (simp add: Note_findById_def findOne_def Note_save_def)
qed

lemma NoteSchema_valid_likes [simp]:
  "NoteSchema_valid (n\<lparr>likes := ls\<rparr>) = NoteSchema_valid n"
  by (simp add: NoteSchema_valid_def)

lemma like_note_allowed:
  assumes "Note_findById noteId (note_docs d) = Some note"
    and "isPublic note \<or> userId note = Some uid"
    and "canonical uid" and "NoteSchema_valid note"
  shows "like_note uid noteId d =
     (Response 200 (Like_json (ObjectId uid \<notin> set (likes note))
                              (length (toggle_likes uid (ObjectId uid) (likes note)))),
      d\<lparr>note_docs := Note_save (note\<lparr>likes := toggle_likes uid (ObjectId uid) (likes note)\<rparr>)
                         (note_docs d)\<rparr>)"
proof -
  have "castable noteId"
    using assms(1) by (auto simp: castable_def dest: Note_findById_Some)
  then show ?thesis
    using assms
    by (auto simp: like_note_def Let_def some_toString_iff castObjectId_canonical)
qed

lemma like_note_allowed_lookup:
  assumes "Note_findById noteId (note_docs d) = Some note"
    and "isPublic note \<or> userId note = Some uid"
    and "canonical uid" and "NoteSchema_valid note"
  shows "Note_findById noteId (note_docs (snd (like_note uid noteId d))) =
     Some (note\<lparr>likes := toggle_likes uid (ObjectId uid) (likes note)\<rparr>)"
  using assms by (simp add: like_note_allowed Note_findById_save)

lemma like_note_invalid:
  assumes "Note_findById noteId (note_docs d) = Some note"
    and "isPublic note \<or> userId note = Some uid"
    and "\<not> NoteSchema_valid note"
  shows "like_note uid noteId d = (Response 500 (Error ''Failed to toggle like''), d)"
proof -
  have "castable noteId"
    using assms(1) by (auto simp: castable_def dest: Note_findById_Some)
  then show ?thesis
    using assms by (auto simp: like_note_def Let_def split: option.splits)
qed

lemma toggle_likes_twice_set:
  "canonical uid \<Longrightarrow>
   set (toggle_likes uid (ObjectId uid) (toggle_likes uid (ObjectId uid) ls)) = set ls"
  by (auto simp: toggle_likes_eq)

lemma toggle_likes_twice_length:
  assumes "canonical uid" and "count_list ls (ObjectId uid) \<le> 1"
  shows "length (toggle_likes uid (ObjectId uid) (toggle_likes uid (ObjectId uid) ls)) = length ls"
proof (cases "ObjectId uid \<in> set ls")
  case False
  then show ?thesis using assms(1) by (simp add: toggle_likes_eq)
next
  case True
  then have "count_list ls (ObjectId uid) = 1"
    using assms(2) count_list_0_iff [of ls "ObjectId uid"] by linarith
  moreover have "length (removeAll x ls) + count_list ls x = length ls" for x :: ObjectId
    by (induction ls) auto
  ultimately have "length (removeAll (ObjectId uid) ls) + 1 = length ls"
    by metis
  with True show ?thesis using assms(1) by (simp add: toggle_likes_eq)
qed

lemma update_note_body_bad:
  "update_note env0 id_ann id_n1 body_bad db0 = (Response 200 (Note_json note_bad), db_bad)"
proof -
  have f: "Note_findById id_n1 (Note_findByIdAndUpdate id_n1 g (note_docs db0)) = Some (g note1)"
    "Note_findByIdAndUpdate id_n1 g (note_docs db0) = [g note1, note2]"
    if "note_id (g note1) = note_id note1" for g
    using that
    by (simp_all add: Note_findById_def Note_findByIdAndUpdate_def findOne_def ex_defs ex_ids)
  have i: "images note1 = []"
    by (simp add: ex_defs)
  have u: "uploadedImages_of env0 (b_images body_bad) =
      Some [\<lparr>img_id = ''7'', img_url = ''http://a'', img_publicId = []\<rparr>]"
    by (simp add: uploadedImages_of_def body_bad_def startsWith_def)
  show ?thesis
    by (simp add: update_note_def u Let_def db0_own_n1 i f deleteFiles_def ex_ids)
       (simp add: body_bad_def note_bad_def db_bad_def or_else_def given_def env0_def
          Note_findById_def findOne_def ex_defs ex_ids)
qed

subsection \<open>Refusals\<close>







subsection \<open>Registration\<close>

lemma lower_char_idem: "lower_char (lower_char c) = lower_char c"
  by (auto simp: lower_char_def Let_def)

lemma toLowerCase_idem: "toLowerCase (toLowerCase s) = toLowerCase s"
  by (simp add: toLowerCase_def lower_char_idem)

lemma email_setters_lower: "email_setters (toLowerCase s) = trim (toLowerCase s)"
  by (simp add: email_setters_def toLowerCase_idem)

lemma User_findByEmail_None:
  "User_findByEmail q us = None \<longleftrightarrow> email_setters q \<notin> set (map email us)"
  by (auto simp: User_findByEmail_def findOne_def find_None_iff image_iff)

lemma register_missing:
  assumes "given (r_email b) = [] \<or> given (r_password b) = [] \<or> given (r_name b) = []"
  shows "register e b d = (Response 400 (Error ''All fields are required''), d)"
  using assms by (auto simp: register_def Let_def)

lemma register_short:
  assumes "given (r_email b) \<noteq> []" and "given (r_password b) \<noteq> []" and "given (r_name b) \<noteq> []"
    and "length (given (r_password b)) < 6"
  shows "register e b d = (Response 400 (Error ''Password must be at least 6 characters''), d)"
  using assms by (simp add: register_def Let_def)

lemma register_taken:
  assumes "given (r_email b) \<noteq> []" and "given (r_name b) \<noteq> []"
    and "6 \<le> length (given (r_password b))"
    and "trim (toLowerCase (given (r_email b))) \<in> set (map email (user_docs d))"
  shows "register e b d = (Response 400 (Error ''Email already registered''), d)"
proof -
  have "User_findByEmail (toLowerCase (given (r_email b))) (user_docs d) \<noteq> None"
    using assms(4) by (simp add: User_findByEmail_None email_setters_lower)
  moreover have "given (r_password b) \<noteq> []"
    using assms(3) by auto
  ultimately show ?thesis
    using assms(1-3) by (auto simp: register_def Let_def)
qed

lemma register_free:
  assumes "given (r_email b) \<noteq> []" and "given (r_name b) \<noteq> []"
    and "6 \<le> length (given (r_password b))"
    and "trim (toLowerCase (given (r_email b))) \<notin> set (map email (user_docs d))"
  shows "register e b d =
     (let user = (UserSchema_defaults (fresh_ObjectId e))\<lparr>
            email := trim (toLowerCase (given (r_email b))),
            password := Some (given (r_password b)),
            name := trim (given (r_name b)),
            refreshToken := Some (generateRefreshToken e (toString (fresh_ObjectId e)))\<rparr>
      in if email user \<noteq> [] \<and> name user \<noteq> []
         then (Response 201 (Registered_json
                 \<lparr>reg_message = ''Registration successful'', reg_id = fresh_ObjectId e,
                  reg_email = email user, reg_name = name user,
                  reg_accessToken = generateAccessToken e (toString (fresh_ObjectId e)),
                  reg_refreshToken = generateRefreshToken e (toString (fresh_ObjectId e))\<rparr>),
               d\<lparr>user_docs := user_docs d @
                    [user\<lparr>password := Some (bcrypt_hash e (given (r_password b)))\<rparr>]\<rparr>)
         else (Response 500 (Error ''Failed to register''), d))"
proof -
  have "User_findByEmail (toLowerCase (given (r_email b))) (user_docs d) = None"
    using assms(4) by (simp add: User_findByEmail_None email_setters_lower)
  moreover have "given (r_password b) \<noteq> []"
    using assms(3) by auto
  ultimately show ?thesis
    using assms(1-3)
    by (simp add: register_def Let_def email_setters_lower UserSchema_valid_def
        UserSchema_defaults_def insertOne_def)
qed

subsection \<open>The router\<close>

lemma dispatch_refused:
  "middleware credentials = Inl answer \<Longrightarrow>
   dispatch (Use middleware # ls) credentials u req d = Sent answer d"
  by simp

lemma notes_stack_routes:
  "dispatch (tl (notes_stack e mw)) credentials (Some uid) req d =
     Sent (fst (notes_routes e uid req d)) (snd (notes_routes e uid req d))"
  by (cases req) (simp_all add: notes_stack_def)

lemma notes_stack_no_user:
  "dispatch (tl (notes_stack e mw)) credentials None req d = Handler_without_user"
  by (cases req) (simp_all add: notes_stack_def)


section \<open>Claims\<close>

text \<open>
  C9. The three views of \<open>GET /\<close> partition a user's notes. A note owned by the
  requester matches the deleted view (\<open>deleted=true\<close>, whatever \<open>archived\<close> is) exactly
  when \<open>isDeleted\<close> is true, the archived view (\<open>archived=true\<close> without
  \<open>deleted=true\<close>) exactly when it is not deleted and archived, the default view (neither
  parameter \<open>true\<close>) exactly when it is neither; so it matches exactly one of the three.
\<close>

theorem list_views_partition:
  assumes "userId n = Some uid"
    and "dl \<noteq> Some ''true''" and "dl' \<noteq> Some ''true''" and "ar' \<noteq> Some ''true''"
  shows "(list_filter uid ar (Some ''true'') n \<longleftrightarrow> isDeleted n)
       \<and> (list_filter uid (Some ''true'') dl n \<longleftrightarrow> \<not> isDeleted n \<and> isArchived n)
       \<and> (list_filter uid ar' dl' n \<longleftrightarrow> \<not> isDeleted n \<and> \<not> isArchived n)
       \<and> length (filter (\<lambda>view. view n)
            [list_filter uid ar (Some ''true''), list_filter uid (Some ''true'') dl,
             list_filter uid ar' dl']) = 1"
  using assms by (auto simp: list_filter_def)

theorem list_views_partition_witness:
  "userId note2 = Some id_ann
   \<and> \<not> list_filter id_ann None (Some ''true'') note2
   \<and> \<not> list_filter id_ann (Some ''true'') None note2
   \<and> list_filter id_ann None None note2"
proof -
  have o: "userId note2 = Some id_ann"
    by (simp add: ex_defs)
  have t: "(None :: string option) \<noteq> Some ''true''"
    by simp
  from list_views_partition [OF o t t t, of None] show ?thesis
    using o by (simp add: ex_defs)
qed



text \<open>
  C8. What a new note starts with. \<open>POST /\<close> either fails with 500 and leaves the
  database as it was, or answers 201 and appends one note, which is not archived, not
  deleted, has no likes and, the handler passing no \<open>isPublic\<close>, is public by the
  schema's default. \<open>POST /:id/duplicate\<close> either leaves the database as it was (with a
  status other than 201) or answers 201 and appends one note, which is public, not pinned,
  has no likes and is owned by the requester.
\<close>

theorem new_notes_start_public:
  "(create_note e uid b d = (Response 500 (Error ''Failed to create note''), d)
    \<or> (\<exists>n. create_note e uid b d =
             (Response 201 (Note_json n), d\<lparr>note_docs := note_docs d @ [n]\<rparr>)
           \<and> \<not> isArchived n \<and> \<not> isDeleted n \<and> likes n = [] \<and> isPublic n))
   \<and> ((snd (duplicate_note e uid i d) = d \<and> status (fst (duplicate_note e uid i d)) \<noteq> 201)
    \<or> (\<exists>n. duplicate_note e uid i d =
             (Response 201 (Note_json n), d\<lparr>note_docs := note_docs d @ [n]\<rparr>)
           \<and> isPublic n \<and> \<not> isPinned n \<and> likes n = [] \<and> userId n = Some uid))"
proof
  show "create_note e uid b d = (Response 500 (Error ''Failed to create note''), d)
    \<or> (\<exists>n. create_note e uid b d =
             (Response 201 (Note_json n), d\<lparr>note_docs := note_docs d @ [n]\<rparr>)
           \<and> \<not> isArchived n \<and> \<not> isDeleted n \<and> likes n = [] \<and> isPublic n)"
    using create_note_cases [of e uid b d] by blast
next
  show "(snd (duplicate_note e uid i d) = d \<and> status (fst (duplicate_note e uid i d)) \<noteq> 201)
    \<or> (\<exists>n. duplicate_note e uid i d =
             (Response 201 (Note_json n), d\<lparr>note_docs := note_docs d @ [n]\<rparr>)
           \<and> isPublic n \<and> \<not> isPinned n \<and> likes n = [] \<and> userId n = Some uid)"
    using duplicate_note_cases [of e uid i d] by blast
qed

theorem new_notes_start_public_witness:
  "status (fst (create_note env0 id_bob \<lparr>b_title = Some ''t'', b_content = None, b_color = None,
       b_images = None, b_isPinned = Some True, b_isArchived = Some True\<rparr> db0)) = 201
   \<and> status (fst (duplicate_note env0 id_bob id_n1 db0)) = 201
   \<and> (\<exists>n. create_note env0 id_bob \<lparr>b_title = Some ''t'', b_content = None, b_color = None,
       b_images = None, b_isPinned = Some True, b_isArchived = Some True\<rparr> db0 =
         (Response 201 (Note_json n), db0\<lparr>note_docs := note_docs db0 @ [n]\<rparr>)
       \<and> \<not> isArchived n \<and> \<not> isDeleted n \<and> likes n = [] \<and> isPublic n)
   \<and> (\<exists>n. duplicate_note env0 id_bob id_n1 db0 =
         (Response 201 (Note_json n), db0\<lparr>note_docs := note_docs db0 @ [n]\<rparr>)
       \<and> isPublic n \<and> \<not> isPinned n \<and> likes n = [] \<and> userId n = Some id_bob)"
proof -
  let ?b = "\<lparr>b_title = Some ''t'', b_content = None, b_color = None,
       b_images = None, b_isPinned = Some True, b_isArchived = Some True\<rparr>"
  have c: "status (fst (create_note env0 id_bob ?b db0)) = 201"
    by (simp add: create_note_def uploadedImages_of_def Let_def NoteSchema_valid_def
        or_else_def given_def NoteSchema_defaults_def)
  have p: "isPublic note1" "images note1 = []" "title note1 = ''note''"
    by (simp_all add: ex_defs)
  have dup: "status (fst (duplicate_note env0 id_bob id_n1 db0)) = 201"
    by (simp add: duplicate_note_def db0_find_n1 Let_def NoteSchema_valid_def p ex_ids
        NoteSchema_defaults_def)
  from new_notes_start_public [of env0 id_bob ?b db0 id_n1] c dup show ?thesis
    by auto
qed

text \<open>
  C6. Images are uploaded conditionally. Whenever \<open>POST /\<close> answers 201 or
  \<open>PUT /:id\<close> answers 200 with the note, the images of that note, which is the one now
  stored, are the request's images position by position: an image whose address starts
  with \<open>data:\<close> is replaced by the uploaded copy (address and storage id from the upload
  service, id the given one or else the rendering of the current time), every other
  image is the request's image unchanged. When every needed upload succeeds the upload loop
  does return its list.
\<close>

theorem images_uploaded_conditionally:
  "(\<forall>n d'. create_note e uid b d = (Response 201 (Note_json n), d') \<longrightarrow>
       images_as_claimed e (images_of_body b) (images n)
       \<and> d' = d\<lparr>note_docs := note_docs d @ [n]\<rparr>)
   \<and> (\<forall>n d'. update_note e uid i b d = (Response 200 (Note_json n), d') \<longrightarrow>
       images_as_claimed e (images_of_body b) (images n)
       \<and> Note_findById i (note_docs d') = Some n)
   \<and> ((\<forall>r \<in> set (images_of_body b).
          startsWith (img_url r) ''data:'' \<longrightarrow> uploadBase64 e (img_url r) \<noteq> None) \<longrightarrow>
       uploadedImages_of e (b_images b) \<noteq> None)"
proof (intro conjI allI impI)
  fix n d'
  assume "create_note e uid b d = (Response 201 (Note_json n), d')"
  with create_note_cases [of e uid b d]
  have "uploadedImages_of e (b_images b) = Some (images n)"
    and "d' = d\<lparr>note_docs := note_docs d @ [n]\<rparr>"
    by auto
  then show "images_as_claimed e (images_of_body b) (images n)"
    and "d' = d\<lparr>note_docs := note_docs d @ [n]\<rparr>"
    by (simp_all add: uploadedImages_of_as_claimed)
next
  fix n d'
  assume "update_note e uid i b d = (Response 200 (Note_json n), d')"
  then have "uploadedImages_of e (b_images b) = Some (images n)"
    and "Note_findById i (note_docs d') = Some n"
    using update_note_ok_images by blast+
  then show "images_as_claimed e (images_of_body b) (images n)"
    and "Note_findById i (note_docs d') = Some n"
    by (simp_all add: uploadedImages_of_as_claimed)
next
  assume "\<forall>r \<in> set (images_of_body b).
          startsWith (img_url r) ''data:'' \<longrightarrow> uploadBase64 e (img_url r) \<noteq> None"
  then show "uploadedImages_of e (b_images b) \<noteq> None"
    using upload_images_total [of _ e 0]
    by (cases "b_images b") (simp_all add: uploadedImages_of_def images_of_body_def)
qed

theorem images_uploaded_conditionally_witness:
  "(\<exists>n d'. create_note env0 id_ann body0 db0 = (Response 201 (Note_json n), d')
       \<and> images n = images0
       \<and> images_as_claimed env0 (images_of_body body0) (images n))
   \<and> (\<exists>n d'. update_note env0 id_ann id_n1 body0 db0 = (Response 200 (Note_json n), d')
       \<and> images n = images0
       \<and> images_as_claimed env0 (images_of_body body0) (images n))
   \<and> uploadedImages_of env0 (b_images body0) \<noteq> None"
proof -
  have c: "\<exists>n d'. create_note env0 id_ann body0 db0 = (Response 201 (Note_json n), d')
       \<and> images n = images0"
    by (simp add: create_note_def uploadedImages_of_body0 Let_def NoteSchema_valid_def
        ImageSchema_valid_def NoteSchema_defaults_def or_else_def given_def images0_def
        body0_fields)
  have i: "images note1 = []"
    by (simp add: ex_defs)
  have f: "Note_findById id_n1 (Note_findByIdAndUpdate id_n1 g (note_docs db0)) = Some (g note1)"
    if "note_id (g note1) = note_id note1" for g
    using that
    by (simp add: Note_findById_def Note_findByIdAndUpdate_def findOne_def ex_defs ex_ids)
  have u: "\<exists>n d'. update_note env0 id_ann id_n1 body0 db0 = (Response 200 (Note_json n), d')
       \<and> images n = images0"
    by (simp add: update_note_def uploadedImages_of_body0 Let_def db0_own_n1 i f deleteFiles_def
        ex_ids)
  have ok: "\<forall>r \<in> set (images_of_body body0).
      startsWith (img_url r) ''data:'' \<longrightarrow> uploadBase64 env0 (img_url r) \<noteq> None"
    by (simp add: env0_def)
  from images_uploaded_conditionally [of env0 id_ann body0 db0 id_n1] c u ok
  show ?thesis
    by metis
qed


text \<open>
  C4, as the handlers have it. The id of the URL is cast before the lookup. With unique
  note ids: deleting a note of the requester without \<open>permanent=true\<close> answers 200 and
  keeps every document, the note now having \<open>isDeleted\<close> true and \<open>deletedAt\<close> the
  current time. Restoring under an id the cast accepts answers 200 exactly when the
  requester owns a note of that identifier whose \<open>isDeleted\<close> is true, and then sets
  \<open>isDeleted\<close> to false and \<open>deletedAt\<close> to null on that note alone; otherwise it
  answers 404 ``Note not found in trash'' and the database is unchanged. Under an id the
  cast rejects, restoring and deleting end in the \<open>catch\<close> branch: 500, and the database
  is unchanged.
\<close>

theorem trash_state_machine:
  assumes "unique_note_ids (note_docs d)"
  shows "(\<forall>note. Note_findOwn noteId uid (note_docs d) = Some note \<and> permanent \<noteq> Some ''true'' \<longrightarrow>
            delete_note e uid noteId permanent d =
              (Response 200 (Message ''Note moved to trash''),
               d\<lparr>note_docs := map (\<lambda>n. if note_id n = note_id note
                                        then n\<lparr>isDeleted := True, deletedAt := Some (new_Date e)\<rparr>
                                        else n) (note_docs d)\<rparr>))
       \<and> (\<forall>i. castObjectId noteId = Some i
              \<and> (\<exists>n \<in> set (note_docs d). note_id n = i \<and> userId n = Some uid \<and> isDeleted n) \<longrightarrow>
            restore_note uid noteId d =
              (Response 200 (Message ''Note restored successfully''),
               d\<lparr>note_docs := map (\<lambda>n. if note_id n = i
                                        then n\<lparr>isDeleted := False, deletedAt := None\<rparr>
                                        else n) (note_docs d)\<rparr>))
       \<and> (\<forall>i. castObjectId noteId = Some i
              \<and> \<not> (\<exists>n \<in> set (note_docs d). note_id n = i \<and> userId n = Some uid \<and> isDeleted n) \<longrightarrow>
            restore_note uid noteId d = (Response 404 (Error ''Note not found in trash''), d))
       \<and> (castObjectId noteId = None \<longrightarrow>
            restore_note uid noteId d = (Response 500 (Error ''Failed to restore note''), d)
          \<and> delete_note e uid noteId permanent d = (Response 500 (Error ''Failed to delete note''), d))"
proof (intro conjI allI impI)
  fix nt
  assume "Note_findOwn noteId uid (note_docs d) = Some nt \<and> permanent \<noteq> Some ''true''"
  then show "delete_note e uid noteId permanent d =
              (Response 200 (Message ''Note moved to trash''),
               d\<lparr>note_docs := map (\<lambda>n. if note_id n = note_id nt
                                        then n\<lparr>isDeleted := True, deletedAt := Some (new_Date e)\<rparr>
                                        else n) (note_docs d)\<rparr>)"
    using assms delete_note_soft by blast
next
  fix i
  assume "castObjectId noteId = Some i
      \<and> (\<exists>n \<in> set (note_docs d). note_id n = i \<and> userId n = Some uid \<and> isDeleted n)"
  then show "restore_note uid noteId d =
              (Response 200 (Message ''Note restored successfully''),
               d\<lparr>note_docs := map (\<lambda>n. if note_id n = i
                                        then n\<lparr>isDeleted := False, deletedAt := None\<rparr>
                                        else n) (note_docs d)\<rparr>)"
    using assms restore_note_found by blast
next
  fix i
  assume "castObjectId noteId = Some i
      \<and> \<not> (\<exists>n \<in> set (note_docs d). note_id n = i \<and> userId n = Some uid \<and> isDeleted n)"
  then show "restore_note uid noteId d = (Response 404 (Error ''Note not found in trash''), d)"
    using restore_note_not_found by blast
next
  assume "castObjectId noteId = None"
  then show "restore_note uid noteId d = (Response 500 (Error ''Failed to restore note''), d)"
    and "delete_note e uid noteId permanent d = (Response 500 (Error ''Failed to delete note''), d)"
    by (simp_all add: restore_note_def delete_note_def castable_def)
qed

theorem trash_state_machine_witness:
  "unique_note_ids (note_docs db0)
   \<and> Note_findOwn id_n1 id_ann (note_docs db0) = Some note1
   \<and> delete_note env0 id_ann id_n1 None db0 =
       (Response 200 (Message ''Note moved to trash''),
        db0\<lparr>note_docs := [note1\<lparr>isDeleted := True, deletedAt := Some 100\<rparr>, note2]\<rparr>)
   \<and> restore_note id_ann ID_N1 (db0\<lparr>note_docs := [note1\<lparr>isDeleted := True, deletedAt := Some 100\<rparr>, note2]\<rparr>) =
       (Response 200 (Message ''Note restored successfully''), db0)
   \<and> restore_note id_ann id_n1 db0 = (Response 404 (Error ''Note not found in trash''), db0)
   \<and> restore_note id_ann ''xyz'' db0 = (Response 500 (Error ''Failed to restore note''), db0)"
proof -
  let ?d1 = "db0\<lparr>note_docs := [note1\<lparr>isDeleted := True, deletedAt := Some 100\<rparr>, note2]\<rparr>"
  have u0: "unique_note_ids (note_docs db0)"
    by (simp add: unique_note_ids_def ex_defs ex_ids)
  have u1: "unique_note_ids (note_docs ?d1)"
    by (simp add: unique_note_ids_def ex_defs ex_ids)
  have t: "(None :: string option) \<noteq> Some ''true''" by simp
  have c: "castObjectId id_n1 = Some (ObjectId id_n1)"
    by (simp add: ex_ids)
  have a: "delete_note env0 id_ann id_n1 None db0 = (Response 200 (Message ''Note moved to trash''), ?d1)"
    using trash_state_machine [OF u0, of id_n1 id_ann None env0] db0_own_n1
    by (simp add: ex_defs ex_ids env0_def)
  have b: "restore_note id_ann ID_N1 ?d1 = (Response 200 (Message ''Note restored successfully''), db0)"
    using trash_state_machine [OF u1, of ID_N1 id_ann None env0] castObjectId_ID_N1
    by (simp add: ex_defs ex_ids)
  have n: "restore_note id_ann id_n1 db0 = (Response 404 (Error ''Note not found in trash''), db0)"
    using trash_state_machine [OF u0, of id_n1 id_ann None env0] c
    by (simp add: ex_defs ex_ids)
  have m: "restore_note id_ann ''xyz'' db0 = (Response 500 (Error ''Failed to restore note''), db0)"
    using trash_state_machine [OF u0, of "''xyz''" id_ann None env0] castObjectId_malformed
    by simp
  from u0 db0_own_n1 a b n m show ?thesis by simp
qed

theorem restore_malformed_id_counterexample:
  "castObjectId ''xyz'' = None
   \<and> fst (restore_note id_ann ''xyz'' db0) = Response 500 (Error ''Failed to restore note'')
   \<and> fst (restore_note id_ann ''xyz'' db0) \<noteq> Response 404 (Error ''Note not found in trash'')"
  by (simp add: restore_note_def castable_def castObjectId_malformed)

text \<open>
  C3, as the handler has it. \<open>note.save()\<close> validates the note it writes back. For a
  note that exists and that the requester may like (it is public, or the requester owns
  it), the requester's id being the rendering of an identifier: when the stored note
  passes its schema, the handler answers 200; the stored likes list loses every
  occurrence of the requester's id when it held one and gains it at the end otherwise;
  \<open>liked\<close> is true exactly when the id was absent before; \<open>likesCount\<close> is the length
  of the stored list; a second application gives back the original membership, and the
  original length too when the id occurred at most once. When the stored note fails its
  schema, the handler answers 500 and the database is unchanged.
\<close>

theorem like_toggles_membership:
  assumes "Note_findById noteId (note_docs d) = Some note"
    and "isPublic note \<or> userId note = Some uid"
    and "canonical uid"
  shows "(NoteSchema_valid note \<longrightarrow>
      (\<exists>L1 L2.
          fst (like_note uid noteId d) =
            Response 200 (Like_json (ObjectId uid \<notin> set (likes note)) (length L1))
        \<and> Note_findById noteId (note_docs (snd (like_note uid noteId d))) = Some (note\<lparr>likes := L1\<rparr>)
        \<and> L1 = (if ObjectId uid \<in> set (likes note) then removeAll (ObjectId uid) (likes note)
                else likes note @ [ObjectId uid])
        \<and> Note_findById noteId
            (note_docs (snd (like_note uid noteId (snd (like_note uid noteId d))))) =
            Some (note\<lparr>likes := L2\<rparr>)
        \<and> set L2 = set (likes note)
        \<and> (count_list (likes note) (ObjectId uid) \<le> 1 \<longrightarrow> length L2 = length (likes note))))
    \<and> (\<not> NoteSchema_valid note \<longrightarrow>
          like_note uid noteId d = (Response 500 (Error ''Failed to toggle like''), d))"
proof (intro conjI impI)
  assume v: "NoteSchema_valid note"
  let ?L1 = "toggle_likes uid (ObjectId uid) (likes note)"
  let ?n1 = "note\<lparr>likes := ?L1\<rparr>"
  let ?d1 = "snd (like_note uid noteId d)"
  let ?L2 = "toggle_likes uid (ObjectId uid) ?L1"
  have r1: "fst (like_note uid noteId d) =
      Response 200 (Like_json (ObjectId uid \<notin> set (likes note)) (length ?L1))"
    using assms v by (simp add: like_note_allowed)
  have f1: "Note_findById noteId (note_docs ?d1) = Some ?n1"
    using assms v by (rule like_note_allowed_lookup)
  have may1: "isPublic ?n1 \<or> userId ?n1 = Some uid"
    using assms(2) by simp
  have v1: "NoteSchema_valid ?n1"
    using v by simp
  have f2: "Note_findById noteId (note_docs (snd (like_note uid noteId ?d1))) =
      Some (?n1\<lparr>likes := toggle_likes uid (ObjectId uid) (likes ?n1)\<rparr>)"
    using f1 may1 assms(3) v1 by (rule like_note_allowed_lookup)
  then have f2': "Note_findById noteId (note_docs (snd (like_note uid noteId ?d1))) =
      Some (note\<lparr>likes := ?L2\<rparr>)"
    by simp
  have "?L1 = (if ObjectId uid \<in> set (likes note) then removeAll (ObjectId uid) (likes note)
            else likes note @ [ObjectId uid])"
    using assms(3) by (rule toggle_likes_eq)
  moreover have "set ?L2 = set (likes note)"
    using assms(3) by (rule toggle_likes_twice_set)
  moreover have "count_list (likes note) (ObjectId uid) \<le> 1 \<longrightarrow> length ?L2 = length (likes note)"
    using assms(3) by (simp add: toggle_likes_twice_length)
  ultimately show "\<exists>L1 L2.
          fst (like_note uid noteId d) =
            Response 200 (Like_json (ObjectId uid \<notin> set (likes note)) (length L1))
        \<and> Note_findById noteId (note_docs (snd (like_note uid noteId d))) = Some (note\<lparr>likes := L1\<rparr>)
        \<and> L1 = (if ObjectId uid \<in> set (likes note) then removeAll (ObjectId uid) (likes note)
                else likes note @ [ObjectId uid])
        \<and> Note_findById noteId
            (note_docs (snd (like_note uid noteId (snd (like_note uid noteId d))))) =
            Some (note\<lparr>likes := L2\<rparr>)
        \<and> set L2 = set (likes note)
        \<and> (count_list (likes note) (ObjectId uid) \<le> 1 \<longrightarrow> length L2 = length (likes note))"
    using r1 f1 f2' by blast
next
  assume "\<not> NoteSchema_valid note"
  with assms(1,2) show "like_note uid noteId d = (Response 500 (Error ''Failed to toggle like''), d)"
    by (rule like_note_invalid)
qed

theorem like_toggles_membership_witness:
  "Note_findById id_n1 (note_docs db0) = Some note1
   \<and> (isPublic note1 \<or> userId note1 = Some id_bob) \<and> canonical id_bob \<and> NoteSchema_valid note1
   \<and> fst (like_note id_bob id_n1 db0) = Response 200 (Like_json True 1)
   \<and> Note_findById id_n1 (note_docs (snd (like_note id_bob id_n1 db0))) =
        Some (note1\<lparr>likes := [ObjectId id_bob]\<rparr>)
   \<and> \<not> NoteSchema_valid note_bad
   \<and> like_note id_bob id_n1 db_bad = (Response 500 (Error ''Failed to toggle like''), db_bad)"
proof -
  have h2: "isPublic note1 \<or> userId note1 = Some id_bob"
    by (simp add: ex_defs)
  have h3: "canonical id_bob"
    by (simp add: ex_ids)
  have v: "NoteSchema_valid note1"
    by (simp add: NoteSchema_valid_def ex_defs)
  have l: "likes note1 = []"
    by (simp add: ex_defs)
  have fb: "Note_findById id_n1 (note_docs db_bad) = Some note_bad"
    by (simp add: Note_findById_def findOne_def db_bad_def note_bad_def ex_defs ex_ids)
  have hb: "isPublic note_bad \<or> userId note_bad = Some id_bob"
    by (simp add: note_bad_def ex_defs)
  have nb: "\<not> NoteSchema_valid note_bad"
    by (simp add: NoteSchema_valid_def ImageSchema_valid_def note_bad_def)
  from like_toggles_membership [OF db0_find_n1 h2 h3] like_toggles_membership [OF fb hb h3]
  show ?thesis
    using db0_find_n1 h2 h3 v nb by (auto simp: l)
qed

theorem like_invalid_note_counterexample:
  "update_note env0 id_ann id_n1 body_bad db0 = (Response 200 (Note_json note_bad), db_bad)
   \<and> Note_findById id_n1 (note_docs db_bad) = Some note_bad
   \<and> isPublic note_bad
   \<and> like_note id_bob id_n1 db_bad = (Response 500 (Error ''Failed to toggle like''), db_bad)
   \<and> note_docs (snd (like_note id_bob id_n1 db_bad)) = note_docs db_bad"
proof -
  have fb: "Note_findById id_n1 (note_docs db_bad) = Some note_bad"
    by (simp add: Note_findById_def findOne_def db_bad_def note_bad_def ex_defs ex_ids)
  have p: "isPublic note_bad"
    by (simp add: note_bad_def ex_defs)
  have nb: "\<not> NoteSchema_valid note_bad"
    by (simp add: NoteSchema_valid_def ImageSchema_valid_def note_bad_def)
  have "like_note id_bob id_n1 db_bad = (Response 500 (Error ''Failed to toggle like''), db_bad)"
    using fb p nb by (intro like_note_invalid) simp_all
  with update_note_body_bad fb p show ?thesis by simp
qed



text \<open>
  C1. Friendship does not stay symmetric: \<open>DELETE /friends/:userId\<close> looks the friend up
  by the cast of the URL's id, but filters the two friends lists by comparing renderings
  with the raw strings. Ann and Bob list each other. Ann's request under Bob's id in
  lower case removes each from the other's list. Her request under the same id in upper
  case finds Bob, answers 200 ``Friend removed'', takes Ann out of Bob's list and leaves
  Bob in Ann's: the lists no longer agree.
\<close>

theorem remove_friend_upper_case_breaks_symmetry:
  "unique_user_ids (user_docs db0) \<and> friendship_symmetric (user_docs db0)
   \<and> remove_friend id_ann id_bob db0 =
       (Response 200 (Message ''Friend removed''),
        db0\<lparr>user_docs := [ann\<lparr>friends := []\<rparr>, bob\<lparr>friends := []\<rparr>]\<rparr>)
   \<and> remove_friend id_ann ID_BOB db0 =
       (Response 200 (Message ''Friend removed''),
        db0\<lparr>user_docs := [ann, bob\<lparr>friends := []\<rparr>]\<rparr>)
   \<and> friends_of id_ann (user_docs (snd (remove_friend id_ann ID_BOB db0))) = [ObjectId id_bob]
   \<and> friends_of id_bob (user_docs (snd (remove_friend id_ann ID_BOB db0))) = []
   \<and> \<not> friendship_symmetric (user_docs (snd (remove_friend id_ann ID_BOB db0)))"
proof -
  have u: "unique_user_ids (user_docs db0)"
    by (simp add: unique_user_ids_def ex_defs ex_ids)
  have s: "friendship_symmetric (user_docs db0)"
    by (simp add: friendship_symmetric_def ex_defs ex_ids)
  have c: "castObjectId id_ann = Some (ObjectId id_ann)" "castObjectId id_bob = Some (ObjectId id_bob)"
    by (simp_all add: ex_ids)
  have lower: "remove_friend id_ann id_bob db0 =
       (Response 200 (Message ''Friend removed''),
        db0\<lparr>user_docs := [ann\<lparr>friends := []\<rparr>, bob\<lparr>friends := []\<rparr>]\<rparr>)"
    by (simp add: remove_friend_def db0_users c castable_def Let_def)
       (simp add: save_two_def User_save_def UserSchema_valid_def ex_defs ex_ids)
  have upper: "remove_friend id_ann ID_BOB db0 =
       (Response 200 (Message ''Friend removed''),
        db0\<lparr>user_docs := [ann, bob\<lparr>friends := []\<rparr>]\<rparr>)"
    by (simp add: remove_friend_def db0_users c castObjectId_ID_BOB castable_def Let_def)
       (simp add: save_two_def User_save_def UserSchema_valid_def ex_defs ex_ids)
  have fa: "friends_of id_ann [ann, bob\<lparr>friends := []\<rparr>] = [ObjectId id_bob]"
    and fb: "friends_of id_bob [ann, bob\<lparr>friends := []\<rparr>] = []"
    by (simp_all add: friends_of_def User_findById_def findOne_def ex_defs ex_ids)
  have ns: "\<not> friendship_symmetric [ann, bob\<lparr>friends := []\<rparr>]"
    by (simp add: friendship_symmetric_def ex_defs ex_ids)
  from u s lower upper fa fb ns show ?thesis
    by simp
qed

theorem remove_friend_upper_case_breaks_symmetry_witness:
  "fst (remove_friend id_ann ID_BOB db0) = Response 200 (Message ''Friend removed'')
   \<and> ObjectId id_bob \<in> set (friends_of id_ann (user_docs (snd (remove_friend id_ann ID_BOB db0))))
   \<and> ObjectId id_ann \<notin> set (friends_of id_bob (user_docs (snd (remove_friend id_ann ID_BOB db0))))"
proof -
  have r: "remove_friend id_ann ID_BOB db0 =
       (Response 200 (Message ''Friend removed''),
        db0\<lparr>user_docs := [ann, bob\<lparr>friends := []\<rparr>]\<rparr>)"
    and a: "friends_of id_ann (user_docs (snd (remove_friend id_ann ID_BOB db0))) = [ObjectId id_bob]"
    and b: "friends_of id_bob (user_docs (snd (remove_friend id_ann ID_BOB db0))) = []"
    using remove_friend_upper_case_breaks_symmetry by blast+
  show ?thesis
    by (simp only: a b) (simp add: r)
qed

text \<open>
  C5, as the handler has it, for requests whose email, password and name are ASCII text.
  A request in which one of the three is missing or empty is answered 400 ``All fields
  are required''; one with all three and a password of fewer than six characters is
  answered 400 ``Password must be at least 6 characters''; both leave the database as
  it was, whatever addresses are stored. For a request with all three and a password of
  at least six characters, the address that is compared and stored is the requested one
  lowercased and trimmed: when a user with that address is stored, registration fails
  with 400 ``Email already registered'' and the database is unchanged; when none is and
  neither the address nor the trimmed name is empty, it answers 201 and appends exactly
  one user, whose email is that address; when none is and one of the two is empty, the
  new document fails validation, the answer is 500 and the database is unchanged.
\<close>

theorem register_email_unique:
  "(given (r_email b) = [] \<or> given (r_password b) = [] \<or> given (r_name b) = [] \<longrightarrow>
      register e b d = (Response 400 (Error ''All fields are required''), d))
   \<and> (given (r_email b) \<noteq> [] \<and> given (r_password b) \<noteq> [] \<and> given (r_name b) \<noteq> []
       \<and> ascii (given (r_password b)) \<and> length (given (r_password b)) < 6 \<longrightarrow>
      register e b d = (Response 400 (Error ''Password must be at least 6 characters''), d))
   \<and> (given (r_email b) \<noteq> [] \<and> given (r_name b) \<noteq> [] \<and> 6 \<le> length (given (r_password b))
       \<and> ascii (given (r_email b)) \<and> ascii (given (r_password b)) \<and> ascii (given (r_name b)) \<longrightarrow>
      (trim (toLowerCase (given (r_email b))) \<in> set (map email (user_docs d)) \<longrightarrow>
         register e b d = (Response 400 (Error ''Email already registered''), d))
    \<and> (trim (toLowerCase (given (r_email b))) \<notin> set (map email (user_docs d))
        \<and> trim (toLowerCase (given (r_email b))) \<noteq> [] \<and> trim (given (r_name b)) \<noteq> [] \<longrightarrow>
         (\<exists>u. status (fst (register e b d)) = 201
             \<and> user_docs (snd (register e b d)) = user_docs d @ [u]
             \<and> note_docs (snd (register e b d)) = note_docs d
             \<and> email u = trim (toLowerCase (given (r_email b)))
             \<and> user_id u = fresh_ObjectId e \<and> friends u = []))
    \<and> (trim (toLowerCase (given (r_email b))) \<notin> set (map email (user_docs d))
        \<and> (trim (toLowerCase (given (r_email b))) = [] \<or> trim (given (r_name b)) = []) \<longrightarrow>
         register e b d = (Response 500 (Error ''Failed to register''), d)))"
proof (intro conjI impI)
  assume "given (r_email b) = [] \<or> given (r_password b) = [] \<or> given (r_name b) = []"
  then show "register e b d = (Response 400 (Error ''All fields are required''), d)"
    by (rule register_missing)
next
  assume "given (r_email b) \<noteq> [] \<and> given (r_password b) \<noteq> [] \<and> given (r_name b) \<noteq> []
       \<and> ascii (given (r_password b)) \<and> length (given (r_password b)) < 6"
  then show "register e b d = (Response 400 (Error ''Password must be at least 6 characters''), d)"
    by (simp add: register_short)
next
  assume v: "given (r_email b) \<noteq> [] \<and> given (r_name b) \<noteq> [] \<and> 6 \<le> length (given (r_password b))
       \<and> ascii (given (r_email b)) \<and> ascii (given (r_password b)) \<and> ascii (given (r_name b))"
    and "trim (toLowerCase (given (r_email b))) \<in> set (map email (user_docs d))"
  then show "register e b d = (Response 400 (Error ''Email already registered''), d)"
    by (intro register_taken) simp_all
next
  assume v: "given (r_email b) \<noteq> [] \<and> given (r_name b) \<noteq> [] \<and> 6 \<le> length (given (r_password b))
       \<and> ascii (given (r_email b)) \<and> ascii (given (r_password b)) \<and> ascii (given (r_name b))"
    and a: "trim (toLowerCase (given (r_email b))) \<notin> set (map email (user_docs d))
        \<and> trim (toLowerCase (given (r_email b))) \<noteq> [] \<and> trim (given (r_name b)) \<noteq> []"
  have "register e b d =
     (let user = (UserSchema_defaults (fresh_ObjectId e))\<lparr>
            email := trim (toLowerCase (given (r_email b))),
            password := Some (given (r_password b)),
            name := trim (given (r_name b)),
            refreshToken := Some (generateRefreshToken e (toString (fresh_ObjectId e)))\<rparr>
      in if email user \<noteq> [] \<and> name user \<noteq> []
         then (Response 201 (Registered_json
                 \<lparr>reg_message = ''Registration successful'', reg_id = fresh_ObjectId e,
                  reg_email = email user, reg_name = name user,
                  reg_accessToken = generateAccessToken e (toString (fresh_ObjectId e)),
                  reg_refreshToken = generateRefreshToken e (toString (fresh_ObjectId e))\<rparr>),
               d\<lparr>user_docs := user_docs d @
                    [user\<lparr>password := Some (bcrypt_hash e (given (r_password b)))\<rparr>]\<rparr>)
         else (Response 500 (Error ''Failed to register''), d))"
    using v a by (intro register_free) simp_all
  with a show "\<exists>u. status (fst (register e b d)) = 201
             \<and> user_docs (snd (register e b d)) = user_docs d @ [u]
             \<and> note_docs (snd (register e b d)) = note_docs d
             \<and> email u = trim (toLowerCase (given (r_email b)))
             \<and> user_id u = fresh_ObjectId e \<and> friends u = []"
    by (simp add: Let_def UserSchema_defaults_def)
next
  assume v: "given (r_email b) \<noteq> [] \<and> given (r_name b) \<noteq> [] \<and> 6 \<le> length (given (r_password b))
       \<and> ascii (given (r_email b)) \<and> ascii (given (r_password b)) \<and> ascii (given (r_name b))"
    and a: "trim (toLowerCase (given (r_email b))) \<notin> set (map email (user_docs d))
        \<and> (trim (toLowerCase (given (r_email b))) = [] \<or> trim (given (r_name b)) = [])"
  have "register e b d =
     (let user = (UserSchema_defaults (fresh_ObjectId e))\<lparr>
            email := trim (toLowerCase (given (r_email b))),
            password := Some (given (r_password b)),
            name := trim (given (r_name b)),
            refreshToken := Some (generateRefreshToken e (toString (fresh_ObjectId e)))\<rparr>
      in if email user \<noteq> [] \<and> name user \<noteq> []
         then (Response 201 (Registered_json
                 \<lparr>reg_message = ''Registration successful'', reg_id = fresh_ObjectId e,
                  reg_email = email user, reg_name = name user,
                  reg_accessToken = generateAccessToken e (toString (fresh_ObjectId e)),
                  reg_refreshToken = generateRefreshToken e (toString (fresh_ObjectId e))\<rparr>),
               d\<lparr>user_docs := user_docs d @
                    [user\<lparr>password := Some (bcrypt_hash e (given (r_password b)))\<rparr>]\<rparr>)
         else (Response 500 (Error ''Failed to register''), d))"
    using v a by (intro register_free) simp_all
  with a show "register e b d = (Response 500 (Error ''Failed to register''), d)"
    by (auto simp: Let_def)
qed

theorem register_email_unique_witness:
  "register env0 \<lparr>r_email = None, r_password = Some ''secret'', r_name = Some ''Cat''\<rparr> db1 =
     (Response 400 (Error ''All fields are required''), db1)
   \<and> register env0 reg_short db1 =
       (Response 400 (Error ''Password must be at least 6 characters''), db1)
   \<and> ascii (given (r_email reg_cat)) \<and> ascii (given (r_email reg_new))
   \<and> register env0 reg_cat db1 = (Response 400 (Error ''Email already registered''), db1)
   \<and> (\<exists>u. status (fst (register env0 reg_new db1)) = 201
         \<and> user_docs (snd (register env0 reg_new db1)) = user_docs db1 @ [u]
         \<and> email u = ''new@x.io'')"
proof -
  let ?none = "\<lparr>r_email = None, r_password = Some ''secret'', r_name = Some ''Cat''\<rparr>"
  have ac: "trim (toLowerCase (given (r_email reg_cat))) = ''cat@x.io''"
    and an: "trim (toLowerCase (given (r_email reg_new))) = ''new@x.io''"
    and nn: "trim (given (r_name reg_new)) = ''New''"
    by code_simp+
  have asc: "ascii (given (r_email reg_cat))" "ascii (given (r_password reg_cat))"
    "ascii (given (r_name reg_cat))" "ascii (given (r_email reg_new))"
    "ascii (given (r_password reg_new))" "ascii (given (r_name reg_new))"
    "ascii (given (r_password reg_short))"
    by code_simp+
  have c: "given (r_email reg_cat) \<noteq> []" "given (r_name reg_cat) \<noteq> []"
    "6 \<le> length (given (r_password reg_cat))"
    by (simp_all add: reg_cat_def given_def)
  have n: "given (r_email reg_new) \<noteq> []" "given (r_name reg_new) \<noteq> []"
    "6 \<le> length (given (r_password reg_new))"
    by (simp_all add: reg_new_def given_def)
  have s: "given (r_email reg_short) \<noteq> []" "given (r_password reg_short) \<noteq> []"
    "given (r_name reg_short) \<noteq> []" "length (given (r_password reg_short)) < 6"
    by (simp_all add: reg_short_def given_def)
  have e: "given (r_email ?none) = []"
    by (simp add: given_def)
  have m: "map email (user_docs db1) = [''ann@x.io'', ''bob@x.io'', ''cat@x.io'']"
    by (simp add: ex_defs)
  from register_email_unique [of ?none env0 db1] register_email_unique [of reg_short env0 db1]
    register_email_unique [of reg_cat env0 db1] register_email_unique [of reg_new env0 db1]
  show ?thesis
    using asc c n s e by (auto simp: ac an nn m)
qed

theorem register_short_password_counterexample:
  "toLowerCase ''new@x.io'' \<notin> set (map email (user_docs db0))
   \<and> given (r_email reg_short) = ''new@x.io''
   \<and> register env0 reg_short db0 =
       (Response 400 (Error ''Password must be at least 6 characters''), db0)"
proof -
  have "toLowerCase ''new@x.io'' = ''new@x.io''"
    by code_simp
  then show ?thesis
    by (simp add: register_def reg_short_def given_def Let_def ex_defs)
qed

text \<open>
  C7. Authentication comes first on every notes route. The router's first layer is the
  auth check and the thirteen routes stand behind it. So for every request: when the
  check does not let it pass, the walk through the router ends at the check with the
  check's own answer and the database as it was, whatever handlers stand behind it; when
  the check lets it pass, the request is answered by the handler of its route under the
  user id the check established. No request reaches a handler without that id and none
  falls through the router; with the first layer taken away, every request would reach
  its handler with no user id set.
\<close>

theorem rejected_request_reaches_no_handler:
  "(verify credentials = None \<longrightarrow>
       notes_router e verify refusal credentials req d = Sent refusal d
     \<and> (\<forall>routes. dispatch (Use (authMiddleware verify refusal) # routes) credentials None req d
                    = Sent refusal d))
   \<and> (verify credentials = Some uid \<longrightarrow>
       notes_router e verify refusal credentials req d =
         Sent (fst (notes_routes e uid req d)) (snd (notes_routes e uid req d)))
   \<and> notes_router e verify refusal credentials req d \<noteq> Handler_without_user
   \<and> notes_router e verify refusal credentials req d \<noteq> Fell_through
   \<and> dispatch (tl (notes_stack e (authMiddleware verify refusal))) credentials None req d
        = Handler_without_user"
proof -
  let ?mw = "authMiddleware verify refusal"
  have stack: "notes_stack e ?mw = Use ?mw # tl (notes_stack e ?mw)"
    by (simp add: notes_stack_def)
  have walk: "notes_router e verify refusal credentials req d =
      (case verify credentials of
         None \<Rightarrow> Sent refusal d
       | Some uid \<Rightarrow> Sent (fst (notes_routes e uid req d)) (snd (notes_routes e uid req d)))"
  proof -
    have "notes_router e verify refusal credentials req d =
        dispatch (Use ?mw # tl (notes_stack e ?mw)) credentials None req d"
      using stack by (simp add: notes_router_def)
    then show ?thesis
      by (cases "verify credentials") (simp_all add: authMiddleware_def notes_stack_routes)
  qed
  have refused: "\<forall>routes. dispatch (Use ?mw # routes) credentials None req d = Sent refusal d"
    if "verify credentials = None"
    using that by (simp add: authMiddleware_def)
  show ?thesis
    using walk refused notes_stack_no_user [of e ?mw credentials req d]
    by (cases "verify credentials") simp_all
qed

theorem rejected_request_reaches_no_handler_witness:
  "verify0 ''nobody'' = None
   \<and> notes_router env0 verify0 refusal0 ''nobody'' (GET_root None None) db0 = Sent refusal0 db0
   \<and> notes_router env0 verify0 refusal0 ''nobody'' (POST_like id_n1) db0 = Sent refusal0 db0
   \<and> verify0 ''token-ann'' = Some id_ann
   \<and> notes_router env0 verify0 refusal0 ''token-ann'' (GET_id id_n1) db0 =
       Sent (Response 200 (Note_json note1)) db0"
proof -
  have n: "verify0 ''nobody'' = None"
    by (simp add: verify0_def)
  have a: "verify0 ''token-ann'' = Some id_ann"
    by (simp add: verify0_def)
  have g: "notes_routes env0 id_ann (GET_id id_n1) db0 = (Response 200 (Note_json note1), db0)"
    by (simp add: get_note_def db0_own_n1 ex_ids)
  from rejected_request_reaches_no_handler
         [of verify0 "''nobody''" env0 refusal0 "GET_root None None" db0]
       rejected_request_reaches_no_handler
         [of verify0 "''nobody''" env0 refusal0 "POST_like id_n1" db0]
       rejected_request_reaches_no_handler
         [of verify0 "''token-ann''" env0 refusal0 "GET_id id_n1" db0 id_ann]
       n a g
  show ?thesis
    by simp
qed


end
